theory Spec2Isabelle
  imports Main "HOL-Library.Sublist"
begin

section \<open>Text\<close>

text \<open>
  HTML, URLs and file names are modelled as \<^typ>\<open>string\<close>: lists of characters with codes
  0 to 255. \<^term>\<open>prefix p s\<close> is JavaScript's \<^verbatim>\<open>/^p/.test(s)\<close> for a literal \<open>p\<close>, and
  \<^term>\<open>sublist p s\<close> is \<^verbatim>\<open>/p/.test(s)\<close>: the literal occurs somewhere in \<open>s\<close>.
\<close>

definition apostrophe :: char where
  "apostrophe = CHR 0x27"

definition backtick :: char where
  "backtick = CHR 0x60"

definition backslash :: char where
  "backslash = CHR 0x5C"

definition dquote :: char where
  "dquote = CHR 0x22"

text \<open>The characters matched by \<^verbatim>\<open>\s\<close> and removed by \<^verbatim>\<open>trim()\<close>, among the codes 0 to 255.\<close>

definition is_space :: "char \<Rightarrow> bool" where
  "is_space c = (c \<in> {CHR 0x09, CHR 0x0A, CHR 0x0B, CHR 0x0C, CHR 0x0D, CHR 0x20, CHR 0xA0})"

definition trim :: "string \<Rightarrow> string" where
  "trim s = rev (dropWhile is_space (rev (dropWhile is_space s)))"

text \<open>The text that follows the first occurrence of a literal, if there is one.\<close>

fun after_first :: "string \<Rightarrow> string \<Rightarrow> string option" where
  "after_first pat [] = (if pat = [] then Some [] else None)"
| "after_first pat (c # cs) =
     (if prefix pat (c # cs) then Some (drop (length pat) (c # cs)) else after_first pat cs)"

text \<open>
  lodash's \<^verbatim>\<open>_.uniq\<close>: the first occurrence of every value, in the order of the input.
\<close>

definition uniq_push :: "'a list \<Rightarrow> 'a \<Rightarrow> 'a list" where
  "uniq_push acc x = (if x \<in> set acc then acc else acc @ [x])"

definition uniq :: "'a list \<Rightarrow> 'a list" where
  "uniq xs = foldl uniq_push [] xs"

section \<open>download.js: the export manifest\<close>

definition isHttpUrl :: "string \<Rightarrow> bool" where
  "isHttpUrl uri = prefix ''http'' uri"

text \<open>
  The document that \<^verbatim>\<open>cheerio.load(html)\<close> returns: its elements in document order, each with
  its tag name and its attributes. \<^verbatim>\<open>$(el).attr(k)\<close> is the value of the first attribute
  named \<open>k\<close>, or undefined (\<^term>\<open>None\<close>).
\<close>

record element =
  tag :: string
  attribs :: "(string \<times> string) list"

definition attr :: "string \<Rightarrow> element \<Rightarrow> string option" where
  "attr k el = map_of (attribs el) k"

text \<open>
  \<^verbatim>\<open>$images.map((i, el) => $(el).attr('src')).get().filter(isHttpUrl)\<close>: cheerio's map
  drops the elements for which the callback returns undefined.
\<close>

definition imgUrls :: "element list \<Rightarrow> string list" where
  "imgUrls doc =
     uniq (filter isHttpUrl (List.map_filter (attr ''src'') (filter (\<lambda>el. tag el = ''img'') doc)))"

definition bgUrls :: "element list \<Rightarrow> string list" where
  "bgUrls doc =
     uniq (filter isHttpUrl
       (List.map_filter (attr ''background'') (filter (\<lambda>el. attr ''background'' el \<noteq> None) doc)))"

text \<open>
  \<^verbatim>\<open>/url\('?([^)']*)/.exec(style)\<close>, group 1: after the first \<^verbatim>\<open>url(\<close> and one optional
  apostrophe, the characters up to the next closing parenthesis or apostrophe.
\<close>

definition urlReg_exec :: "string \<Rightarrow> string option" where
  "urlReg_exec style =
     (case after_first ''url('' style of
        None \<Rightarrow> None
      | Some rest \<Rightarrow>
          Some (takeWhile (\<lambda>c. c \<noteq> CHR '')'' \<and> c \<noteq> apostrophe)
                  (case rest of
                     [] \<Rightarrow> []
                   | c # cs \<Rightarrow> if c = apostrophe then cs else c # cs)))"

definition styleUrls_each :: "string list \<Rightarrow> element \<Rightarrow> string list" where
  "styleUrls_each styleUrls el =
     (case attr ''style'' el of
        None \<Rightarrow> styleUrls
      | Some style \<Rightarrow>
          if \<not> sublist ''url('' style then styleUrls
          else (case urlReg_exec style of
                  None \<Rightarrow> styleUrls
                | Some r \<Rightarrow>
                    if r \<noteq> [] \<and> isHttpUrl r \<and> r \<notin> set styleUrls then styleUrls @ [r]
                    else styleUrls))"

definition styleUrls :: "element list \<Rightarrow> string list" where
  "styleUrls doc = foldl styleUrls_each [] doc"

definition allImages :: "element list \<Rightarrow> string list" where
  "allImages doc = uniq (imgUrls doc @ bgUrls doc @ styleUrls doc)"

section \<open>download.js: archive names\<close>

text \<open>
  What is thrown, or what a promise is rejected with. \<open>NotFound\<close> is the error 404 of
  http-errors, \<open>TypeError\<close> and \<open>URIError\<close> are JavaScript's. \<open>UriRequired\<close>,
  \<open>UnixScheme\<close>, \<open>InvalidURI\<close> and \<open>InvalidProtocol\<close> are the errors of the request
  package (for a missing URI, the scheme \<^verbatim>\<open>unix:\<close>, the given URI, the given protocol).
  \<open>ParseError\<close> is an error of formidable and \<open>WriteError\<close> the error of a write, with
  their messages.
\<close>

datatype error =
  NotFound | TypeError | URIError | UriRequired | UnixScheme | InvalidURI string |
  InvalidProtocol string | ParseError string | WriteError string

text \<open>
  \<^verbatim>\<open>getImageName\<close> reads \<^verbatim>\<open>url.parse(imageUrl).pathname\<close>. The function takes Node's
  parser as the parameter \<open>pathname\<close>: it throws, or it gives the path name, which is a
  string or null (\<^term>\<open>None\<close>); calling \<^verbatim>\<open>.replace\<close> on null throws a TypeError.
\<close>

definition getImageName :: "(string \<Rightarrow> error + string option) \<Rightarrow> string \<Rightarrow> error + string" where
  "getImageName pathname imageUrl =
     (case pathname imageUrl of
        Inl e \<Rightarrow> Inl e
      | Inr None \<Rightarrow> Inl TypeError
      | Inr (Some p) \<Rightarrow>
          Inr (map (\<lambda>c. if is_space c then CHR ''-'' else c)
                 (trim (map (\<lambda>c. if c = CHR ''/'' then CHR '' '' else c) p))))"

text \<open>
  \<^verbatim>\<open>name.replace(/\.[0-9a-z]+$/, '')\<close>: a final dot followed by one or more digits or
  lower-case letters is removed.
\<close>

definition is_ext_char :: "char \<Rightarrow> bool" where
  "is_ext_char c = (c \<in> set ''0123456789abcdefghijklmnopqrstuvwxyz'')"

definition strip_extension :: "string \<Rightarrow> string" where
  "strip_extension name =
     (let tail = rev (takeWhile is_ext_char (rev name));
          front = rev (dropWhile is_ext_char (rev name))
      in if tail \<noteq> [] \<and> front \<noteq> [] \<and> last front = CHR ''.'' then butlast front else name)"

text \<open>\<^verbatim>\<open>getName\<close>; \<open>getSlug\<close> is the speakingurl package, and a missing name is \<^term>\<open>None\<close>.\<close>

definition getName :: "(string \<Rightarrow> string) \<Rightarrow> string option \<Rightarrow> string" where
  "getName getSlug name =
     getSlug (strip_extension (case name of None \<Rightarrow> ''email'' | Some n \<Rightarrow> if n = [] then ''email'' else n))"

definition imagesFolder :: string where
  "imagesFolder = ''images''"

section \<open>Node's url.parse\<close>

text \<open>
  \<^verbatim>\<open>url.parse(u)\<close> of Node 8 (lib/url.js), on strings of characters with codes 0 to 255.
  The steps are those of the library.
  \<^enum> The string is trimmed (the library has its own list of white space) and the
    backslashes before the first question mark or hash become slashes.
  \<^enum> Without a hash, a string that matches \<^verbatim>\<open>simplePathPattern\<close> is a path and a query,
    and nothing else is looked for.
  \<^enum> A protocol \<^verbatim>\<open>/^[a-z0-9.+-]+:/i\<close> is split off. The tables \<^verbatim>\<open>hostlessProtocol\<close> and
    \<^verbatim>\<open>slashedProtocol\<close> are looked up with the protocol as it is written, so only a
    protocol in lower case is found there.
  \<^enum> When a host is expected, the credentials (up to the last \<^verbatim>\<open>@\<close> before the first
    slash, question mark or hash) are decoded with \<^verbatim>\<open>decodeURIComponent\<close>, which may throw
    a URIError, the host runs up to the first character that cannot be in a host, and the
    port \<^verbatim>\<open>/:[0-9]*$/\<close> is cut off the host.
  \<^enum> The host name is validated: from its first character that is not a letter, a digit,
    a dot, \<^verbatim>\<open>-\<close>, \<^verbatim>\<open>+\<close> or \<^verbatim>\<open>_\<close> and has a code up to 127, or from the 64th character of
    a label behind the first dot, it is moved into the path behind a slash. A host name in
    square brackets is not validated. A host name of more than 255 characters is emptied.
  \<^enum> The characters of the library's \<^verbatim>\<open>autoEscape\<close> list are percent-encoded, and the
    path name is what stands before the first question mark or hash; for a slashed protocol
    with a host name, an empty path name is a slash.

  Left out: \<^verbatim>\<open>toASCII\<close> and the lower case of characters beyond ASCII, which change the
  spelling of a host name and nothing else that is read here.
\<close>

definition is_ws :: "char \<Rightarrow> bool" where
  "is_ws c = (c \<in> {CHR 0x20, CHR 0x09, CHR 0x0D, CHR 0x0A, CHR 0x0C, CHR 0xA0})"

definition url_trim :: "string \<Rightarrow> string" where
  "url_trim s = rev (dropWhile is_ws (rev (dropWhile is_ws s)))"

definition convert_backslashes :: "string \<Rightarrow> string" where
  "convert_backslashes u =
     (let front = takeWhile (\<lambda>c. c \<noteq> CHR ''?'' \<and> c \<noteq> CHR ''#'') u
      in map (\<lambda>c. if c = backslash then CHR ''/'' else c) front @ drop (length front) u)"

text \<open>
  \<^verbatim>\<open>simplePathPattern = /^(\/\/?(?!\/)[^\?\s]*)(\?[^\s]*)?$/\<close>, group 1: one slash or two,
  no slash behind them, a path without question mark and white space, and behind it
  nothing or a query without white space.
\<close>

definition simplePath :: "string \<Rightarrow> string option" where
  "simplePath rest =
     (case rest of
        [] \<Rightarrow> None
      | c # r \<Rightarrow>
          if c \<noteq> CHR ''/'' then None
          else
            (let r' = (if r \<noteq> [] \<and> hd r = CHR ''/'' then tl r else r);
                 p = takeWhile (\<lambda>c. c \<noteq> CHR ''?'' \<and> \<not> is_space c) r';
                 q = dropWhile (\<lambda>c. c \<noteq> CHR ''?'' \<and> \<not> is_space c) r'
             in if r' \<noteq> [] \<and> hd r' = CHR ''/'' then None
                else if q = [] \<or> (hd q = CHR ''?'' \<and> \<not> list_ex is_space (tl q))
                then Some (take (length rest - length q) rest)
                else None))"

definition is_scheme_char :: "char \<Rightarrow> bool" where
  "is_scheme_char c =
     (c \<in> set ''abcdefghijklmnopqrstuvwxyzABCDEFGHIJKLMNOPQRSTUVWXYZ0123456789.+-'')"

definition to_lower :: "char \<Rightarrow> char" where
  "to_lower c =
     (case map_of (zip ''ABCDEFGHIJKLMNOPQRSTUVWXYZ'' ''abcdefghijklmnopqrstuvwxyz'') c of
        None \<Rightarrow> c
      | Some l \<Rightarrow> l)"

text \<open>The protocol as it is written, without its colon, and what follows the colon.\<close>

definition split_protocol :: "string \<Rightarrow> string option \<times> string" where
  "split_protocol s =
     (let scheme = takeWhile is_scheme_char s; rest = dropWhile is_scheme_char s
      in if scheme \<noteq> [] \<and> rest \<noteq> [] \<and> hd rest = CHR '':''
         then (Some scheme, tl rest)
         else (None, s))"

definition slashedProtocol :: "string option \<Rightarrow> bool" where
  "slashedProtocol proto = (proto \<in> Some ` {''http'', ''https'', ''ftp'', ''gopher'', ''file''})"

definition hostlessProtocol :: "string option \<Rightarrow> bool" where
  "hostlessProtocol proto = (proto = Some ''javascript'')"

text \<open>\<^verbatim>\<open>hostPattern = /^\/\/[^@\/]+@[^@\/]+/\<close>\<close>

definition hostPattern :: "string \<Rightarrow> bool" where
  "hostPattern rest =
     (prefix ''//'' rest \<and>
      (let user = takeWhile (\<lambda>c. c \<noteq> CHR ''@'' \<and> c \<noteq> CHR ''/'') (drop 2 rest);
           later = dropWhile (\<lambda>c. c \<noteq> CHR ''@'' \<and> c \<noteq> CHR ''/'') (drop 2 rest)
       in user \<noteq> [] \<and> later \<noteq> [] \<and> hd later = CHR ''@'' \<and> tl later \<noteq> [] \<and>
          hd (tl later) \<noteq> CHR ''@'' \<and> hd (tl later) \<noteq> CHR ''/''))"

definition autoEscape :: "(char \<times> string) list" where
  "autoEscape =
     [(CHR ''{'', ''%7B''), (CHR ''}'', ''%7D''), (CHR ''|'', ''%7C''), (backslash, ''%5C''),
      (CHR ''^'', ''%5E''), (backtick, ''%60''), (CHR ''<'', ''%3C''), (CHR ''>'', ''%3E''),
      (dquote, ''%22''), (CHR '' '', ''%20''), (CHR 0x0D, ''%0D''), (CHR 0x0A, ''%0A''),
      (CHR 0x09, ''%09''), (apostrophe, ''%27'')]"

definition autoEscapeStr :: "string \<Rightarrow> string" where
  "autoEscapeStr rest = concat (map (\<lambda>c. case map_of autoEscape c of None \<Rightarrow> [c] | Some e \<Rightarrow> e) rest)"

definition nonHostChar :: "char \<Rightarrow> bool" where
  "nonHostChar c = (c \<in> set ''%/?;#'' \<or> c \<in> fst ` set autoEscape)"

text \<open>
  \<^verbatim>\<open>decodeURIComponent\<close> throws a URIError when a percent sign is not followed by two
  hexadecimal digits, or when the octets that start with an octet from 128 on are not the
  UTF-8 encoding of a code point. \<^term>\<open>decodes s\<close> says that it does not throw.
\<close>

definition hex_value :: "char \<Rightarrow> nat option" where
  "hex_value c =
     map_of (zip ''0123456789abcdefABCDEF'' [0, 1, 2, 3, 4, 5, 6, 7, 8, 9, 10, 11, 12, 13, 14, 15, 10, 11, 12, 13, 14, 15]) c"

fun percent_octet :: "string \<Rightarrow> (nat \<times> string) option" where
  "percent_octet (p # a # b # r) =
     (if p = CHR ''%'' then
        (case hex_value a of
           None \<Rightarrow> None
         | Some x \<Rightarrow> (case hex_value b of None \<Rightarrow> None | Some y \<Rightarrow> Some (16 * x + y, r)))
      else None)"
| "percent_octet s = None"

fun continuation :: "nat \<Rightarrow> string \<Rightarrow> (nat list \<times> string) option" where
  "continuation 0 s = Some ([], s)"
| "continuation (Suc n) s =
     (case percent_octet s of
        None \<Rightarrow> None
      | Some (b, r) \<Rightarrow>
          if 128 \<le> b \<and> b < 192
          then (case continuation n r of None \<Rightarrow> None | Some (bs, r') \<Rightarrow> Some (b # bs, r'))
          else None)"

text \<open>The well-formed sequences of two to four octets (Unicode, table 3-7).\<close>

definition utf8_sequence :: "nat \<Rightarrow> nat list \<Rightarrow> bool" where
  "utf8_sequence b bs =
     ((0xC2 \<le> b \<and> b \<le> 0xDF \<and> length bs = 1) \<or>
      (0xE0 \<le> b \<and> b \<le> 0xEF \<and> length bs = 2 \<and>
         (b = 0xE0 \<longrightarrow> 0xA0 \<le> hd bs) \<and> (b = 0xED \<longrightarrow> hd bs \<le> 0x9F)) \<or>
      (0xF0 \<le> b \<and> b \<le> 0xF4 \<and> length bs = 3 \<and>
         (b = 0xF0 \<longrightarrow> 0x90 \<le> hd bs) \<and> (b = 0xF4 \<longrightarrow> hd bs \<le> 0x8F)))"

function decodes :: "string \<Rightarrow> bool" where
  "decodes s =
     (case s of
        [] \<Rightarrow> True
      | c # cs \<Rightarrow>
          if c \<noteq> CHR ''%'' then decodes cs
          else
            (case percent_octet s of
               None \<Rightarrow> False
             | Some (b, r) \<Rightarrow>
                 if b < 128 then decodes (drop 3 s)
                 else
                   (let n = (if b < 0xC0 then 0 else if b < 0xE0 then 1 else if b < 0xF0 then 2
                             else if b < 0xF8 then 3 else 4)
                    in case continuation n r of
                         None \<Rightarrow> False
                       | Some (bs, r') \<Rightarrow> utf8_sequence b bs \<and> decodes (drop (3 + 3 * n) s))))"
  by pat_completeness auto
termination
  by (relation "measure length") auto

text \<open>\<^verbatim>\<open>parseHost\<close>: the host name and the port of a host.\<close>

definition is_digit :: "char \<Rightarrow> bool" where
  "is_digit c = (c \<in> set ''0123456789'')"

definition parseHost :: "string \<Rightarrow> string \<times> string option" where
  "parseHost host =
     (let digits = takeWhile is_digit (rev host); front = dropWhile is_digit (rev host)
      in if front \<noteq> [] \<and> hd front = CHR '':''
         then (rev (tl front), if digits = [] then None else Some (rev digits))
         else (host, None))"

text \<open>
  \<^verbatim>\<open>validateHostname\<close>, from index \<open>i\<close> on: the index at which the host name is cut, if it
  is. \<open>lastPos\<close> is the start of the current label; the library sets it at the first dot, so
  the length of the first label is not looked at.
\<close>

definition is_hostname_char :: "char \<Rightarrow> bool" where
  "is_hostname_char c =
     (c \<in> set ''0123456789abcdefghijklmnopqrstuvwxyzABCDEFGHIJKLMNOPQRSTUVWXYZ-+_'' \<or>
      (127 :: nat) < of_char c)"

fun validateHostname :: "nat \<Rightarrow> nat option \<Rightarrow> string \<Rightarrow> nat option" where
  "validateHostname i lastPos [] =
     (case lastPos of
        None \<Rightarrow> None
      | Some l \<Rightarrow> if 63 < i - l then Some (l + 63) else None)"
| "validateHostname i lastPos (c # cs) =
     (if c = CHR ''.'' then
        (case lastPos of
           None \<Rightarrow> validateHostname (i + 1) (Some (i + 1)) cs
         | Some l \<Rightarrow> if 63 < i - l then Some (l + 63) else validateHostname (i + 1) (Some (i + 1)) cs)
      else if is_hostname_char c then validateHostname (i + 1) lastPos cs
      else Some i)"

text \<open>
  What the export and the request package read of the parsed URL: \<^verbatim>\<open>protocol\<close> (in lower
  case, with its colon), \<^verbatim>\<open>host\<close>, \<^verbatim>\<open>hostname\<close>, \<^verbatim>\<open>port\<close>, \<^verbatim>\<open>pathname\<close> and
  \<^verbatim>\<open>search\<close>; \<^term>\<open>None\<close> is null.
\<close>

record parsed_url =
  url_protocol :: "string option"
  url_host :: "string option"
  url_hostname :: "string option"
  url_port :: "string option"
  url_path :: "string option"
  url_search :: "string option"

text \<open>The last steps: escaping, and the split into path name, query and hash.\<close>

definition url_finish ::
  "string option \<Rightarrow> string option \<Rightarrow> string option \<Rightarrow> string option \<Rightarrow> string \<Rightarrow> parsed_url" where
  "url_finish lowerProto host hostname port rest =
     (let rest' = (if lowerProto = Some ''javascript'' then rest else autoEscapeStr rest);
          no_hash = takeWhile (\<lambda>c. c \<noteq> CHR ''#'') rest';
          p = takeWhile (\<lambda>c. c \<noteq> CHR ''?'') no_hash;
          q = dropWhile (\<lambda>c. c \<noteq> CHR ''?'') no_hash
      in \<lparr>url_protocol = map_option (\<lambda>s. s @ '':'') lowerProto,
          url_host = host,
          url_hostname = hostname,
          url_port = port,
          url_path = (if p \<noteq> [] then Some p
                      else if slashedProtocol lowerProto \<and> hostname \<noteq> None \<and> hostname \<noteq> Some []
                      then Some ''/'' else None),
          url_search = (if q = [] then None else Some q)\<rparr>)"

definition url_parse :: "string \<Rightarrow> error + parsed_url" where
  "url_parse u =
     (let rest = convert_backslashes (url_trim u) in
      case (if CHR ''#'' \<in> set u then None else simplePath rest) of
        Some p \<Rightarrow>
          Inr \<lparr>url_protocol = None, url_host = None, url_hostname = None, url_port = None,
               url_path = Some p,
               url_search = (if length p < length rest then Some (drop (length p) rest) else None)\<rparr>
      | None \<Rightarrow>
          (let (proto, rest0) = split_protocol rest;
               lowerProto = map_option (map to_lower) proto;
               slashes = ((hostPattern rest0 \<or> proto \<noteq> None) \<and> prefix ''//'' rest0);
               rest1 = (if slashes \<and> \<not> hostlessProtocol proto then drop 2 rest0 else rest0)
           in if \<not> hostlessProtocol proto \<and> (slashes \<or> (proto \<noteq> None \<and> \<not> slashedProtocol proto))
              then
                (let region = takeWhile (\<lambda>c. c \<notin> set ''#/?'') rest1;
                     auth_end = length region - length (takeWhile (\<lambda>c. c \<noteq> CHR ''@'') (rev region));
                     has_auth = (CHR ''@'' \<in> set region);
                     later = (if has_auth then drop auth_end rest1 else rest1);
                     host = takeWhile (\<lambda>c. \<not> nonHostChar c) later;
                     rest2 = dropWhile (\<lambda>c. \<not> nonHostChar c) later;
                     (hostname0, port) = parseHost host;
                     ipv6 = (hostname0 \<noteq> [] \<and> hd hostname0 = CHR ''['' \<and> last hostname0 = CHR '']'');
                     cut = (if ipv6 then None else validateHostname 0 None hostname0);
                     hostname1 = (case cut of None \<Rightarrow> hostname0 | Some k \<Rightarrow> take k hostname0);
                     rest3 = (case cut of None \<Rightarrow> rest2 | Some k \<Rightarrow> CHR ''/'' # drop k hostname0 @ rest2);
                     hostname2 = (if 255 < length hostname1 then [] else map to_lower hostname1);
                     hostname3 = (if ipv6 then butlast (tl hostname2) else hostname2);
                     rest4 = (if ipv6 \<and> (rest3 = [] \<or> hd rest3 \<noteq> CHR ''/'') then CHR ''/'' # rest3 else rest3)
                 in if has_auth \<and> \<not> decodes (take (auth_end - 1) rest1) then Inl URIError
                    else Inr (url_finish lowerProto
                                (Some (hostname2 @ (case port of None \<Rightarrow> [] | Some d \<Rightarrow> CHR '':'' # d)))
                                (Some hostname3) port rest4))
              else Inr (url_finish lowerProto None None None rest1)))"

definition url_pathname :: "string \<Rightarrow> error + string option" where
  "url_pathname u = (case url_parse u of Inl e \<Rightarrow> Inl e | Inr p \<Rightarrow> Inr (url_path p))"

section \<open>download.js: rewriting the HTML\<close>

text \<open>
  \<^verbatim>\<open>html.replace(new RegExp(_.escapeRegExp(imgUrl), 'g'), relativeUrl)\<close>. The escaped pattern
  matches the URL as a literal. The replacement is a string, so JavaScript expands in it
  \<^verbatim>\<open>$$\<close> (a dollar), \<^verbatim>\<open>$&\<close> (the match), \<^verbatim>\<open>$`\<close> (the text before the match) and
  \<^verbatim>\<open>$'\<close> (the text after it); the pattern has no groups, so \<^verbatim>\<open>$1\<close> stays as it is.
\<close>

fun getSubstitution :: "string \<Rightarrow> string \<Rightarrow> string \<Rightarrow> string \<Rightarrow> string" where
  "getSubstitution [] matched pre post = []"
| "getSubstitution [c] matched pre post = [c]"
| "getSubstitution (c # d # r) matched pre post =
     (if c = CHR ''$'' \<and> d = CHR ''$'' then CHR ''$'' # getSubstitution r matched pre post
      else if c = CHR ''$'' \<and> d = CHR ''&'' then matched @ getSubstitution r matched pre post
      else if c = CHR ''$'' \<and> d = backtick then pre @ getSubstitution r matched pre post
      else if c = CHR ''$'' \<and> d = apostrophe then post @ getSubstitution r matched pre post
      else c # getSubstitution (d # r) matched pre post)"

text \<open>
  The global replacement scans from the left; after a match it continues behind the match,
  so occurrences that overlap a replaced one are not seen. \<open>pre\<close> is the text already
  scanned. An empty pattern matches before every character and at the end.
\<close>

fun replace_empty :: "string \<Rightarrow> string \<Rightarrow> string \<Rightarrow> string" where
  "replace_empty tpl pre [] = getSubstitution tpl [] pre []"
| "replace_empty tpl pre (c # cs) =
     getSubstitution tpl [] pre (c # cs) @ c # replace_empty tpl (pre @ [c]) cs"

function replace_from :: "string \<Rightarrow> string \<Rightarrow> string \<Rightarrow> string \<Rightarrow> string" where
  "replace_from pat tpl pre s =
     (if pat = [] \<or> s = [] then s
      else if prefix pat s then
        getSubstitution tpl pat pre (drop (length pat) s)
          @ replace_from pat tpl (pre @ pat) (drop (length pat) s)
      else hd s # replace_from pat tpl (pre @ [hd s]) (tl s))"
  by pat_completeness auto
termination
  by (relation "measure (\<lambda>(pat, tpl, pre, s). length s)") auto

definition replace_all :: "string \<Rightarrow> string \<Rightarrow> string \<Rightarrow> string" where
  "replace_all pat tpl s = (if pat = [] then replace_empty tpl [] s else replace_from pat tpl [] s)"

text \<open>
  The \<^verbatim>\<open>forEach\<close> over the manifest. An entry whose name cannot be derived throws, which ends
  the request before anything is archived.
\<close>

fun rewrite :: "(string \<Rightarrow> error + string option) \<Rightarrow> string list \<Rightarrow> string \<Rightarrow> error + string" where
  "rewrite pathname [] html = Inr html"
| "rewrite pathname (imgUrl # rest) html =
     (case getImageName pathname imgUrl of
        Inl e \<Rightarrow> Inl e
      | Inr n \<Rightarrow> rewrite pathname rest (replace_all imgUrl (imagesFolder @ ''/'' @ n) html))"

section \<open>download.js: secureHtml\<close>

text \<open>
  The sanitize routine works on what lies outside the codes 0 to 255, so here a JavaScript
  string is the list of its UTF-16 code units, each a number below 65536.
\<close>

type_synonym code_unit = nat

definition units :: "string \<Rightarrow> code_unit list" where
  "units s = map of_char s"

text \<open>A global replacement of a literal by a replacement that holds no dollar sign.\<close>

function replace_literal :: "'a list \<Rightarrow> 'a list \<Rightarrow> 'a list \<Rightarrow> 'a list" where
  "replace_literal pat rep s =
     (if pat = [] \<or> s = [] then s
      else if prefix pat s then rep @ replace_literal pat rep (drop (length pat) s)
      else hd s # replace_literal pat rep (tl s))"
  by pat_completeness auto
termination
  by (relation "measure (\<lambda>(pat, rep, s). length s)") auto

text \<open>
  The package \<^verbatim>\<open>he\<close>, version 1: \<^verbatim>\<open>he.encode(html, {useNamedReferences: true,
  allowUnsafeSymbols: true})\<close>. With these options it
  \<^enum> shortens \<^verbatim>\<open>&gt;\<close> and \<^verbatim>\<open>&lt;\<close> followed by U+20D2 to \<^verbatim>\<open>&nvgt;\<close> and \<^verbatim>\<open>&nvlt;\<close>;
  \<^enum> replaces every symbol that \<^verbatim>\<open>regexEncodeNonAscii\<close> matches by its named reference;
  \<^enum> replaces every surrogate pair by the hexadecimal escape of its code point;
  \<^enum> replaces every code unit that \<^verbatim>\<open>regexBmpWhitelist\<close> matches by its hexadecimal escape.

  The table of named references is the parameter \<open>named\<close>: it maps a symbol of one or two
  code units that \<^verbatim>\<open>regexEncodeNonAscii\<close> matches to the name of its reference. The
  alternatives of two code units stand first in that expression, so they are tried first.
\<close>

definition hex_digit :: "nat \<Rightarrow> code_unit" where
  "hex_digit d = (if d < 10 then 48 + d else 55 + d)"

fun to_hex :: "nat \<Rightarrow> code_unit list" where
  "to_hex n = (if n < 16 then [hex_digit n] else to_hex (n div 16) @ [hex_digit (n mod 16)])"

definition hexEscape :: "nat \<Rightarrow> code_unit list" where
  "hexEscape codePoint = units ''&#x'' @ to_hex codePoint @ units '';''"

definition named_reference :: "code_unit list \<Rightarrow> code_unit list" where
  "named_reference n = units ''&'' @ n @ units '';''"

fun encodeNonAscii :: "(code_unit list \<Rightarrow> code_unit list option) \<Rightarrow> code_unit list \<Rightarrow> code_unit list" where
  "encodeNonAscii named [] = []"
| "encodeNonAscii named [a] =
     (case named [a] of None \<Rightarrow> [a] | Some n \<Rightarrow> named_reference n)"
| "encodeNonAscii named (a # b # s) =
     (case named [a, b] of
        Some n \<Rightarrow> named_reference n @ encodeNonAscii named s
      | None \<Rightarrow>
          (case named [a] of
             Some n \<Rightarrow> named_reference n @ encodeNonAscii named (b # s)
           | None \<Rightarrow> a # encodeNonAscii named (b # s)))"

text \<open>\<^verbatim>\<open>regexAstralSymbols = /[\uD800-\uDBFF][\uDC00-\uDFFF]/g\<close>\<close>

fun encodeAstral :: "code_unit list \<Rightarrow> code_unit list" where
  "encodeAstral (high # low # s) =
     (if 0xD800 \<le> high \<and> high \<le> 0xDBFF \<and> 0xDC00 \<le> low \<and> low \<le> 0xDFFF
      then hexEscape ((high - 0xD800) * 0x400 + low - 0xDC00 + 0x10000) @ encodeAstral s
      else high # encodeAstral (low # s))"
| "encodeAstral s = s"

text \<open>
  \<^verbatim>\<open>regexBmpWhitelist = /[\x01-\t\x0B\f\x0E-\x1F\x7F\x81\x8D\x8F\x90\x9D\xA0-\uFFFF]/g\<close>
\<close>

definition regexBmpWhitelist :: "code_unit \<Rightarrow> bool" where
  "regexBmpWhitelist u =
     ((1 \<le> u \<and> u \<le> 9) \<or> u = 11 \<or> u = 12 \<or> (14 \<le> u \<and> u \<le> 31) \<or> u = 127 \<or> u = 129 \<or>
      u = 141 \<or> u = 143 \<or> u = 144 \<or> u = 157 \<or> (160 \<le> u \<and> u \<le> 65535))"

definition encodeBmp :: "code_unit list \<Rightarrow> code_unit list" where
  "encodeBmp s = concat (map (\<lambda>u. if regexBmpWhitelist u then hexEscape u else [u]) s)"

definition he_encode :: "(code_unit list \<Rightarrow> code_unit list option) \<Rightarrow> code_unit list \<Rightarrow> code_unit list" where
  "he_encode named s =
     encodeBmp (encodeAstral (encodeNonAscii named
       (replace_literal (units ''&lt;'' @ [0x20D2]) (units ''&nvlt;'')
         (replace_literal (units ''&gt;'' @ [0x20D2]) (units ''&nvgt;'') s))))"

definition secureHtml :: "(code_unit list \<Rightarrow> code_unit list option) \<Rightarrow> code_unit list \<Rightarrow> code_unit list" where
  "secureHtml named html = he_encode named (map (\<lambda>u. if u = 9 then 32 else u) html)"

section \<open>download.js: the archive\<close>

text \<open>
  What \<^verbatim>\<open>archive.append\<close> receives: the sanitized HTML, or the response stream of the request
  for an image URL, with the entry's name and prefix.
\<close>

datatype source = Html "code_unit list" | Stream string

record entry =
  source :: source
  entry_name :: string
  entry_prefix :: string

text \<open>
  Modelled from the spec: \<^verbatim>\<open>h.defer()\<close> is a helper that is not among the sources; the
  specification has each entry "resolve its completion", and the handler awaits the
  deferreds with \<^verbatim>\<open>Promise.all\<close>, so a deferred is a promise that stays pending until its
  \<^verbatim>\<open>resolve\<close> is called.

  The state of one export: the archive's root name, the manifest with the name of each
  image, the entries appended so far, one flag for each deferred of \<^verbatim>\<open>imagesRequest\<close>
  (resolved or not), whether \<^verbatim>\<open>archive.finalize()\<close> has been called, whether
  \<^verbatim>\<open>res.end()\<close> has been called, and the archive errors handed to \<^verbatim>\<open>next\<close>.
\<close>

record zip_state =
  archive_name :: string
  images :: "(string \<times> string) list"
  entries :: "entry list"
  resolved :: "bool list"
  finalized :: bool
  ended :: bool
  passed_to_next :: "string list"

text \<open>
  The request package, version 2: \<^verbatim>\<open>request(uri)\<close> parses the URI with \<^verbatim>\<open>url.parse\<close> and
  checks it before it returns. A check that fails emits \<^verbatim>\<open>error\<close> on the new request; no
  listener is attached yet, so the emit throws the error. The checks, in their order: the
  URI is not empty; the protocol is not \<^verbatim>\<open>unix:\<close>; for the host \<^verbatim>\<open>unix\<close> the path is
  split, which throws a TypeError when there is none; otherwise there is a host; the
  protocol is \<^verbatim>\<open>http:\<close> or \<^verbatim>\<open>https:\<close> (no proxy is configured). The result is what is
  thrown, \<^term>\<open>None\<close> when the call returns the request.
\<close>

definition request_init :: "string \<Rightarrow> error option" where
  "request_init uri =
     (if uri = [] then Some UriRequired
      else
        (case url_parse uri of
           Inl e \<Rightarrow> Some e
         | Inr p \<Rightarrow>
             if url_protocol p = Some ''unix:'' then Some UnixScheme
             else if url_host p = Some ''unix'' \<and> url_path p = None \<and> url_search p = None then Some TypeError
             else if url_host p \<noteq> Some ''unix'' \<and> (url_host p = None \<or> url_host p = Some [])
             then Some (InvalidURI uri)
             else if url_protocol p \<noteq> Some ''http:'' \<and> url_protocol p \<noteq> Some ''https:''
             then Some (InvalidProtocol (case url_protocol p of None \<Rightarrow> [] | Some x \<Rightarrow> x))
             else None))"

text \<open>
  The synchronous part of \<^verbatim>\<open>zip\<close>, up to the \<^verbatim>\<open>await\<close>. \<open>mailing\<close> is the outcome of
  \<^verbatim>\<open>Mailing.findOne\<close>: \<^term>\<open>None\<close> when there is no such mailing, otherwise its name. \<open>doc\<close>
  is \<^verbatim>\<open>cheerio.load(html)\<close>. \<open>request\<close> is what the call \<^verbatim>\<open>request(imageUrl)\<close> throws,
  \<^term>\<open>None\<close> when it returns.

  \<^verbatim>\<open>imagesRequest\<close> is the \<^verbatim>\<open>map\<close> over the manifest: for every image its name is derived
  and its request is made, in the order of the manifest. The first call that throws ends
  the handler, which then hands the error to \<^verbatim>\<open>next\<close>.
\<close>

fun imagesRequest ::
  "(string \<Rightarrow> error + string option) \<Rightarrow> (string \<Rightarrow> error option) \<Rightarrow> string list \<Rightarrow>
   error + (string \<times> string) list" where
  "imagesRequest pathname request [] = Inr []"
| "imagesRequest pathname request (imageUrl # rest) =
     (case getImageName pathname imageUrl of
        Inl e \<Rightarrow> Inl e
      | Inr n \<Rightarrow>
          (case request imageUrl of
             Some e \<Rightarrow> Inl e
           | None \<Rightarrow>
               (case imagesRequest pathname request rest of
                  Inl e \<Rightarrow> Inl e
                | Inr ns \<Rightarrow> Inr ((imageUrl, n) # ns))))"

definition zip_start ::
  "(code_unit list \<Rightarrow> code_unit list option) \<Rightarrow> (string \<Rightarrow> string) \<Rightarrow> (string \<Rightarrow> error + string option) \<Rightarrow>
   (string \<Rightarrow> error option) \<Rightarrow> string option option \<Rightarrow> element list \<Rightarrow> string \<Rightarrow> error + zip_state" where
  "zip_start named getSlug pathname request mailing doc html =
     (case mailing of
        None \<Rightarrow> Inl NotFound
      | Some mailing_name \<Rightarrow>
          (let n = getName getSlug mailing_name in
           case rewrite pathname (allImages doc) html of
             Inl e \<Rightarrow> Inl e
           | Inr html' \<Rightarrow>
               (case imagesRequest pathname request (allImages doc) of
                  Inl e \<Rightarrow> Inl e
                | Inr ns \<Rightarrow>
                    Inr \<lparr>archive_name = n,
                         images = ns,
                         entries = [\<lparr>source = Html (secureHtml named (units html')),
                                     entry_name = n @ ''.html'', entry_prefix = n @ ''/''\<rparr>],
                         resolved = replicate (length ns) False,
                         finalized = False,
                         ended = False,
                         passed_to_next = []\<rparr>)))"

text \<open>
  What happens afterwards is driven by events: the response (with its status code) or the
  error of the request for image \<open>i\<close>, an error of the archive, and the end of the
  archive's output stream. archiver ends that stream only once the archive is finalized.
\<close>

datatype zip_event = Response nat nat | RequestError nat | ArchiveError string | ArchiveEnd

definition on_event :: "zip_state \<Rightarrow> zip_event \<Rightarrow> zip_state" where
  "on_event st ev =
     (case ev of
        Response i statusCode \<Rightarrow>
          if statusCode \<noteq> 200 \<or> \<not> i < length (images st) then st
          else st\<lparr>entries := entries st @
                      [\<lparr>source = Stream (fst (images st ! i)), entry_name = snd (images st ! i),
                        entry_prefix = archive_name st @ ''/'' @ imagesFolder @ ''/''\<rparr>],
                  resolved := (resolved st)[i := True]\<rparr>
      | RequestError i \<Rightarrow> st\<lparr>resolved := (resolved st)[i := True]\<rparr>
      | ArchiveError e \<Rightarrow> st\<lparr>passed_to_next := passed_to_next st @ [e]\<rparr>
      | ArchiveEnd \<Rightarrow> if finalized st then st\<lparr>ended := True\<rparr> else st)"

text \<open>
  \<^verbatim>\<open>await Promise.all(imagesRequest); archive.finalize()\<close>: the function resumes once every
  deferred is resolved.
\<close>

definition resume :: "zip_state \<Rightarrow> zip_state" where
  "resume st = (if list_all (\<lambda>b. b) (resolved st) \<and> \<not> finalized st then st\<lparr>finalized := True\<rparr> else st)"

definition zip_run :: "zip_state \<Rightarrow> zip_event list \<Rightarrow> zip_state" where
  "zip_run st evs = foldl (\<lambda>s ev. resume (on_event s ev)) (resume st) evs"

text \<open>The whole handler: the synchronous part, then the events in the order they arrive.\<close>

definition zip_handler ::
  "(code_unit list \<Rightarrow> code_unit list option) \<Rightarrow> (string \<Rightarrow> string) \<Rightarrow> (string \<Rightarrow> error + string option) \<Rightarrow>
   (string \<Rightarrow> error option) \<Rightarrow> string option option \<Rightarrow> element list \<Rightarrow> string \<Rightarrow> zip_event list \<Rightarrow>
   error + zip_state" where
  "zip_handler named getSlug pathname request mailing doc html evs =
     (case zip_start named getSlug pathname request mailing doc html of
        Inl e \<Rightarrow> Inl e
      | Inr st \<Rightarrow> Inr (zip_run st evs))"

section \<open>Node's path.extname\<close>

text \<open>
  The loop of \<^verbatim>\<open>path.posix.extname\<close> runs from the last character to the first; it stops
  at the first slash that follows a character of the last segment.
\<close>

record ext_state =
  startDot :: int
  startPart :: int
  end_idx :: int
  matchedSlash :: bool
  preDotState :: int

fun extname_loop :: "string \<Rightarrow> nat \<Rightarrow> ext_state \<Rightarrow> ext_state" where
  "extname_loop p 0 st = st"
| "extname_loop p (Suc i) st =
     (if p ! i = CHR ''/'' then
        (if \<not> matchedSlash st then st\<lparr>startPart := int i + 1\<rparr> else extname_loop p i st)
      else
        (let st1 = (if end_idx st = - 1 then st\<lparr>end_idx := int i + 1, matchedSlash := False\<rparr> else st);
             st2 = (if p ! i = CHR ''.'' then
                      (if startDot st1 = - 1 then st1\<lparr>startDot := int i\<rparr>
                       else if preDotState st1 \<noteq> 1 then st1\<lparr>preDotState := 1\<rparr>
                       else st1)
                    else if startDot st1 \<noteq> - 1 then st1\<lparr>preDotState := - 1\<rparr>
                    else st1)
         in extname_loop p i st2))"

definition extname :: "string \<Rightarrow> string" where
  "extname p =
     (let st = extname_loop p (length p)
                 \<lparr>startDot = - 1, startPart = 0, end_idx = - 1, matchedSlash = True, preDotState = 0\<rparr>
      in if startDot st = - 1 \<or> end_idx st = - 1 \<or> preDotState st = 0 \<or>
            (preDotState st = 1 \<and> startDot st = end_idx st - 1 \<and> startDot st = startPart st + 1)
         then []
         else take (nat (end_idx st) - nat (startDot st)) (drop (nat (startDot st)) p))"

section \<open>filemanager/index.js: receiving the files\<close>

text \<open>
  One file part of a multipart body, and the file object formidable makes of it. The form is
  set up with \<^verbatim>\<open>form.hash = 'md5'\<close>, so the object carries the MD5 digest of the content;
  the digest function is the parameter \<open>md5\<close>. A part without a file name has the empty
  name.
\<close>

record part =
  field :: string
  filename :: string
  content_type :: string
  content :: string
  tmp_path :: string

record uploaded_file =
  file_size :: nat
  path :: string
  name :: string
  type :: string
  hash :: string
  originalName :: "string option"

definition incoming :: "(string \<Rightarrow> string) \<Rightarrow> part \<Rightarrow> uploaded_file" where
  "incoming md5 p =
     \<lparr>file_size = length (content p), path = tmp_path p, name = filename p,
      type = content_type p, hash = md5 (content p), originalName = None\<rparr>"

text \<open>\<^verbatim>\<open>s.replace(pat, '')\<close> for a string \<open>pat\<close>: the first occurrence is removed.\<close>

fun remove_first :: "string \<Rightarrow> string \<Rightarrow> string" where
  "remove_first pat [] = []"
| "remove_first pat (c # cs) =
     (if prefix pat (c # cs) then drop (length pat) (c # cs) else c # remove_first pat cs)"

text \<open>
  \<^verbatim>\<open>mime.extension\<close> returns an extension or false; in a template literal false reads
  \<^verbatim>\<open>false\<close>.
\<close>

definition template_text :: "string option \<Rightarrow> string" where
  "template_text v = (case v of None \<Rightarrow> ''false'' | Some s \<Rightarrow> s)"

text \<open>
  \<^verbatim>\<open>onFile(name, file)\<close>. \<open>slugFilename\<close> is the helper shared/slug-filename.js,
  \<open>mime_extension\<close> is \<^verbatim>\<open>mime.extension\<close> with its table, and \<open>options_prefix\<close> is
  \<^verbatim>\<open>options.prefix\<close>. The result is the file object as the handler leaves it, the file
  handed to \<^verbatim>\<open>writeStreamFromPath\<close> if there is one, and the name in the warning if there
  is one.
\<close>

definition onFile ::
  "(string \<Rightarrow> string) \<Rightarrow> (string \<Rightarrow> string option) \<Rightarrow> string \<Rightarrow> string \<Rightarrow> uploaded_file \<Rightarrow>
   uploaded_file \<times> uploaded_file option \<times> string option" where
  "onFile slugFilename mime_extension options_prefix field_name f =
     (if file_size f = 0 then (f, None, None)
      else if field_name = ''markup'' then (f, None, None)
      else
        (let slug = slugFilename (name f);
             fileName = remove_first (extname slug) slug
         in if fileName = [] then (f, None, Some (name f))
            else
              (let ext = template_text (mime_extension (type f));
                   f' = f\<lparr>name := options_prefix @ ''-'' @ hash f @ ''.'' @ ext,
                          originalName := Some (fileName @ ''.'' @ ext)\<rparr>
               in (f', Some f', None))))"

text \<open>
  What a submission has gathered when formidable is done: the file objects by field name, in
  the order of arrival, the writes started and the warnings printed.
\<close>

record received =
  files :: "(string \<times> uploaded_file) list"
  uploads :: "uploaded_file list"
  warnings :: "string list"

definition receive ::
  "(string \<Rightarrow> string) \<Rightarrow> (string \<Rightarrow> string) \<Rightarrow> (string \<Rightarrow> string option) \<Rightarrow> string \<Rightarrow>
   received \<Rightarrow> part \<Rightarrow> received" where
  "receive md5 slugFilename mime_extension options_prefix acc p =
     (case onFile slugFilename mime_extension options_prefix (field p) (incoming md5 p) of
        (f, w, warning) \<Rightarrow>
          \<lparr>files = files acc @ [(field p, f)],
           uploads = uploads acc @ (case w of None \<Rightarrow> [] | Some x \<Rightarrow> [x]),
           warnings = warnings acc @ (case warning of None \<Rightarrow> [] | Some x \<Rightarrow> [x])\<rparr>)"

definition receive_all ::
  "(string \<Rightarrow> string) \<Rightarrow> (string \<Rightarrow> string) \<Rightarrow> (string \<Rightarrow> string option) \<Rightarrow> string \<Rightarrow>
   part list \<Rightarrow> received" where
  "receive_all md5 slugFilename mime_extension options_prefix ps =
     foldl (receive md5 slugFilename mime_extension options_prefix)
       \<lparr>files = [], uploads = [], warnings = []\<rparr> ps"

section \<open>filemanager/index.js: the formatters\<close>

text \<open>
  The fields object that formidable hands to \<^verbatim>\<open>onEnd\<close>: its properties in the order of
  insertion. The value of a text field is a string; the asset map is an object whose values
  are strings. (With \<^verbatim>\<open>form.multiples\<close>, a field whose name ends in \<^verbatim>\<open>[]\<close> is an array;
  the code reads no such field.)
\<close>

datatype field_value = Text string | Object "(string \<times> string) list"

type_synonym fields = "(string \<times> field_value) list"

text \<open>\<^verbatim>\<open>object[k] = v\<close> on an object whose properties are listed in the order of insertion.\<close>

definition set_property :: "string \<Rightarrow> 'v \<Rightarrow> (string \<times> 'v) list \<Rightarrow> (string \<times> 'v) list" where
  "set_property k v obj =
     (if k \<in> fst ` set obj then map (\<lambda>(k', v'). if k' = k then (k', v) else (k', v')) obj
      else obj @ [(k, v)])"

text \<open>The fields object of a form with the given text fields, in the order of arrival.\<close>

definition form_fields :: "(string \<times> string) list \<Rightarrow> fields" where
  "form_fields text_fields = foldl (\<lambda>obj (k, v). set_property k (Text v) obj) [] text_fields"

text \<open>An object property whose key is undefined has the key \<^verbatim>\<open>undefined\<close>.\<close>

definition property_key :: "string option \<Rightarrow> string" where
  "property_key k = (case k of None \<Rightarrow> ''undefined'' | Some s \<Rightarrow> s)"

text \<open>
  \<^verbatim>\<open>imageToFields\<close>. \<^verbatim>\<open>fields.assets || {}\<close> is a new object when there is no such
  property or when it is the empty string. When it is another string, the assignment of a
  property to it throws a TypeError: the module is in strict mode.
\<close>

definition imageToFields :: "fields \<Rightarrow> uploaded_file \<Rightarrow> error + fields" where
  "imageToFields fs f =
     (if file_size f = 0 then Inr fs
      else if name f = [] then Inr fs
      else
        (case map_of fs ''assets'' of
           None \<Rightarrow> Inr (set_property ''assets'' (Object [(property_key (originalName f), name f)]) fs)
         | Some (Text s) \<Rightarrow>
             if s = [] then Inr (set_property ''assets'' (Object [(property_key (originalName f), name f)]) fs)
             else Inl TypeError
         | Some (Object obj) \<Rightarrow>
             Inr (set_property ''assets'' (Object (set_property (property_key (originalName f)) (name f) obj)) fs)))"

text \<open>\<^verbatim>\<open>files.images.forEach(file => imageToFields(fields, file))\<close>: the first throw ends it.\<close>

fun imagesToFields :: "fields \<Rightarrow> uploaded_file list \<Rightarrow> error + fields" where
  "imagesToFields fs [] = Inr fs"
| "imagesToFields fs (f # rest) =
     (case imageToFields fs f of Inl e \<Rightarrow> Inl e | Inr fs' \<Rightarrow> imagesToFields fs' rest)"

text \<open>
  \<^verbatim>\<open>files.x\<close> is undefined when no part has the field name \<open>x\<close>, the file when one part
  has it, and an array of files when several have it (\<^verbatim>\<open>form.multiples\<close> is set).
\<close>

definition files_of :: "string \<Rightarrow> (string \<times> uploaded_file) list \<Rightarrow> uploaded_file list" where
  "files_of k fl = map snd (filter (\<lambda>(k', f). k' = k) fl)"

text \<open>
  \<^verbatim>\<open>handleTemplatesUploads\<close>; \<open>readFile\<close> gives the text of a path, or \<^term>\<open>None\<close> when
  reading fails, and then \<^verbatim>\<open>resolve\<close> is never called (the result is \<^term>\<open>None\<close>).
  Otherwise the result is what \<^verbatim>\<open>resolve\<close> is called with.
\<close>

definition handleTemplatesUploads ::
  "(string \<Rightarrow> string option) \<Rightarrow> fields \<Rightarrow> (string \<times> uploaded_file) list \<Rightarrow> error + fields option" where
  "handleTemplatesUploads readFile fs fl =
     (case imagesToFields fs (files_of ''images'' fl) of
        Inl e \<Rightarrow> Inl e
      | Inr fs' \<Rightarrow>
          (case files_of ''markup'' fl of
             [m] \<Rightarrow>
               if name m \<noteq> [] then
                 (case readFile (path m) of
                    None \<Rightarrow> Inr None
                  | Some text \<Rightarrow> Inr (Some (set_property ''markup'' (Text text) fs')))
               else Inr (Some fs')
           | _ \<Rightarrow> Inr (Some fs')))"

text \<open>
  \<^verbatim>\<open>handleEditorUpload\<close>; \<open>formatName\<close> is the helper
  helpers/format-filename-for-jqueryfileupload.js, applied to \<^verbatim>\<open>file.name\<close>, which is
  undefined when \<^verbatim>\<open>files['files[]']\<close> is an array. Without such a file, reading
  \<^verbatim>\<open>file.name\<close> throws.
\<close>

definition handleEditorUpload ::
  "(string option \<Rightarrow> string) \<Rightarrow> (string \<times> uploaded_file) list \<Rightarrow> error + string list" where
  "handleEditorUpload formatName fl =
     (case files_of ''files[]'' fl of
        [] \<Rightarrow> Inl TypeError
      | [f] \<Rightarrow> Inr [formatName (Some (name f))]
      | _ \<Rightarrow> Inr [formatName None])"

datatype upload_result = Files "string list" | Fields fields

datatype outcome = Pending | Resolved upload_result | Rejected error

text \<open>
  \<^verbatim>\<open>formatters[options.formatter](fields, files, deferred.resolve)\<close>: what the call does to
  the deferred. A formatter that throws, or one that is not in the table, makes the call
  throw, and the \<^verbatim>\<open>catch\<close> rejects.
\<close>

definition format_result ::
  "(string \<Rightarrow> string option) \<Rightarrow> (string option \<Rightarrow> string) \<Rightarrow> string \<Rightarrow> fields \<Rightarrow>
   (string \<times> uploaded_file) list \<Rightarrow> outcome" where
  "format_result readFile formatName formatter fs fl =
     (if formatter = ''editor'' then
        (case handleEditorUpload formatName fl of Inl e \<Rightarrow> Rejected e | Inr r \<Rightarrow> Resolved (Files r))
      else if formatter = ''groups'' then
        (case handleTemplatesUploads readFile fs fl of
           Inl e \<Rightarrow> Rejected e
         | Inr None \<Rightarrow> Pending
         | Inr (Some r) \<Rightarrow> Resolved (Fields r))
      else Rejected TypeError)"

section \<open>filemanager/index.js: parseMultipart\<close>

text \<open>
  Modelled from the spec: \<^verbatim>\<open>writeStreamFromPath\<close> (filemanager/local.js and
  filemanager/s3.js) and \<^verbatim>\<open>defer\<close> (helpers/create-promise.js) are not among the sources.
  By the specification a write either stores the whole stream or fails, so a write is a
  promise that is fulfilled or rejected with an error; the deferred is a promise with its
  \<^verbatim>\<open>resolve\<close> and \<^verbatim>\<open>reject\<close>.

  The writes run concurrently with the parsing. The state of a submission: the state of
  every promise in \<^verbatim>\<open>uploads\<close>, whether formidable has called \<^verbatim>\<open>onEnd\<close>, whether
  \<^verbatim>\<open>Promise.all(uploads)\<close> has been called, and the state of the deferred that
  \<^verbatim>\<open>parseMultipart\<close> returns. The events are the settling of write \<open>i\<close> (with its error
  when it fails) and formidable's call of \<^verbatim>\<open>onEnd\<close> (with its error when parsing failed).
\<close>

datatype write_status = WPending | WDone | WFailed string

record upload_state =
  writes :: "write_status list"
  form_ended :: bool
  joined :: bool
  deferred :: outcome

datatype upload_event = WriteSettled nat "string option" | FormEnd "string option"

text \<open>A settled promise keeps its state.\<close>

definition settle :: "outcome \<Rightarrow> upload_state \<Rightarrow> upload_state" where
  "settle out st = (case deferred st of Pending \<Rightarrow> st\<lparr>deferred := out\<rparr> | _ \<Rightarrow> st)"

fun first_failed :: "write_status list \<Rightarrow> string option" where
  "first_failed [] = None"
| "first_failed (WFailed e # ws) = Some e"
| "first_failed (w # ws) = first_failed ws"

text \<open>
  \<open>fmt\<close> is what the formatter does to the deferred (\<^const>\<open>format_result\<close>). When
  \<^verbatim>\<open>Promise.all\<close> is called on promises of which some are rejected already, it rejects with
  the reason of the first of them in the array; afterwards it rejects with the first
  rejection that happens, and it is fulfilled when every promise is.
\<close>

definition on_upload_event :: "outcome \<Rightarrow> upload_state \<Rightarrow> upload_event \<Rightarrow> upload_state" where
  "on_upload_event fmt st ev =
     (case ev of
        FormEnd err \<Rightarrow>
          if form_ended st then st
          else (case err of
                  Some e \<Rightarrow> settle (Rejected (ParseError e)) (st\<lparr>form_ended := True\<rparr>)
                | None \<Rightarrow>
                    (let st' = st\<lparr>form_ended := True, joined := True\<rparr>
                     in case first_failed (writes st) of
                          Some e \<Rightarrow> settle (Rejected (WriteError e)) st'
                        | None \<Rightarrow>
                            if list_all (\<lambda>w. w = WDone) (writes st) then settle fmt st' else st'))
      | WriteSettled i r \<Rightarrow>
          if \<not> i < length (writes st) \<or> writes st ! i \<noteq> WPending then st
          else
            (let st' = st\<lparr>writes := (writes st)[i := (case r of None \<Rightarrow> WDone | Some e \<Rightarrow> WFailed e)]\<rparr>
             in if \<not> joined st then st'
                else (case r of
                        Some e \<Rightarrow> settle (Rejected (WriteError e)) st'
                      | None \<Rightarrow>
                          if list_all (\<lambda>w. w = WDone) (writes st') then settle fmt st' else st')))"

definition upload_start :: "nat \<Rightarrow> upload_state" where
  "upload_start n = \<lparr>writes = replicate n WPending, form_ended = False, joined = False, deferred = Pending\<rparr>"

definition upload_run :: "outcome \<Rightarrow> nat \<Rightarrow> upload_event list \<Rightarrow> upload_state" where
  "upload_run fmt n evs = foldl (on_upload_event fmt) (upload_start n) evs"

text \<open>
  \<^verbatim>\<open>parseMultipart(req, options)\<close> for a request with the given file parts and text fields,
  followed by the events \<open>evs\<close>.
\<close>

definition parseMultipart ::
  "(string \<Rightarrow> string) \<Rightarrow> (string \<Rightarrow> string) \<Rightarrow> (string \<Rightarrow> string option) \<Rightarrow>
   (string \<Rightarrow> string option) \<Rightarrow> (string option \<Rightarrow> string) \<Rightarrow>
   string \<Rightarrow> string \<Rightarrow> (string \<times> string) list \<Rightarrow> part list \<Rightarrow> upload_event list \<Rightarrow> upload_state" where
  "parseMultipart md5 slugFilename mime_extension readFile formatName options_prefix formatter text_fields ps evs =
     (let r = receive_all md5 slugFilename mime_extension options_prefix ps
      in upload_run
           (format_result readFile formatName formatter (form_fields text_fields) (files r))
           (length (uploads r)) evs)"

section \<open>Properties used in the statements\<close>

text \<open>
  What the proofs need of the table of named references: every symbol it names ends in a
  code unit that \<^verbatim>\<open>regexBmpWhitelist\<close> matches (the symbols of \<^verbatim>\<open>regexEncodeNonAscii\<close> end in a
  code unit from U+00A0 on), and no name holds such a code unit (the names are made of
  letters and digits).
\<close>

definition table_ok :: "(code_unit list \<Rightarrow> code_unit list option) \<Rightarrow> bool" where
  "table_ok named =
     (\<forall>k n. named k = Some n \<longrightarrow>
        k \<noteq> [] \<and> regexBmpWhitelist (last k) \<and> (\<forall>u \<in> set n. \<not> regexBmpWhitelist u))"

text \<open>The invariant of an export with \<open>n\<close> images.\<close>

definition zip_inv :: "nat \<Rightarrow> zip_state \<Rightarrow> bool" where
  "zip_inv n st =
     (length (resolved st) = n \<and>
      (finalized st \<longrightarrow> list_all (\<lambda>b. b) (resolved st)) \<and>
      (ended st \<longrightarrow> finalized st))"


text \<open>The invariant of a submission with \<open>n\<close> writes whose formatter does \<open>fmt\<close>.\<close>

definition upload_inv :: "outcome \<Rightarrow> nat \<Rightarrow> upload_state \<Rightarrow> bool" where
  "upload_inv fmt n st =
     (length (writes st) = n \<and>
      (\<not> form_ended st \<longrightarrow> deferred st = Pending \<and> \<not> joined st) \<and>
      (joined st \<longrightarrow> form_ended st) \<and>
      (\<forall>r. deferred st = Resolved r \<longrightarrow> joined st \<and> list_all (\<lambda>w. w = WDone) (writes st) \<and> fmt = Resolved r) \<and>
      (joined st \<and> first_failed (writes st) \<noteq> None \<longrightarrow>
         (\<exists>e. deferred st = Rejected (WriteError e))) \<and>
      (\<forall>e. joined st \<and> deferred st = Rejected (WriteError e) \<longrightarrow> WFailed e \<in> set (writes st)) \<and>
      (joined st \<and> deferred st \<noteq> Pending \<and> (\<forall>e. deferred st \<noteq> Rejected (WriteError e)) \<longrightarrow>
         list_all (\<lambda>w. w = WDone) (writes st)))"

text \<open>
  Two runs of the same events with two formatters that do not reject: they differ at most
  in the value the deferred is resolved with.
\<close>

definition same_but_result :: "upload_state \<Rightarrow> upload_state \<Rightarrow> bool" where
  "same_but_result st1 st2 =
     (writes st1 = writes st2 \<and> form_ended st1 = form_ended st2 \<and> joined st1 = joined st2 \<and>
      (joined st1 \<longrightarrow> form_ended st1) \<and>
      (deferred st1 = deferred st2 \<or>
       (joined st1 \<and> list_all (\<lambda>w. w = WDone) (writes st1) \<and>
        (\<forall>e. deferred st1 \<noteq> Rejected e) \<and> (\<forall>e. deferred st2 \<noteq> Rejected e))))"

section \<open>Well-formed absolute URLs\<close>








section \<open>Example inputs\<close>

definition example_named :: "code_unit list \<Rightarrow> code_unit list option" where
  "example_named k = (if k = [233] then Some (units ''eacute'') else None)"

definition example_getSlug :: "string \<Rightarrow> string" where
  "example_getSlug n = n"

definition example_doc :: "element list" where
  "example_doc =
     [\<lparr>tag = ''img'', attribs = [(''src'', ''http://a.com/x.png'')]\<rparr>,
      \<lparr>tag = ''img'', attribs = [(''src'', ''http://a.com/y.png'')]\<rparr>,
      \<lparr>tag = ''img'', attribs = [(''src'', ''http://a.com/z.png'')]\<rparr>]"

definition example_html :: string where
  "example_html = ''<img src=http://a.com/x.png><img src=http://a.com/y.png><img src=http://a.com/z.png>''"

definition example_archived_html :: source where
  "example_archived_html =
     Html (secureHtml example_named
             (units ''<img src=images/x.png><img src=images/y.png><img src=images/z.png>''))"

definition example_manifest :: "string list" where
  "example_manifest = [''http://a.com/x.png'', ''http://a.com/y.png'', ''http://a.com/z.png'']"

definition example_name_of :: "string \<Rightarrow> string" where
  "example_name_of u = drop 13 u"

text \<open>A submission of three images to the \<^verbatim>\<open>groups\<close> formatter, with the prefix \<^verbatim>\<open>tpl\<close>.\<close>

definition example_md5 :: "string \<Rightarrow> string" where
  "example_md5 bytes = ''md5of'' @ bytes"

definition example_slugFilename :: "string \<Rightarrow> string" where
  "example_slugFilename n =
     map to_lower (filter (\<lambda>c. c \<in> set ''abcdefghijklmnopqrstuvwxyzABCDEFGHIJKLMNOPQRSTUVWXYZ0123456789.-'') n)"

definition example_mime_extension :: "string \<Rightarrow> string option" where
  "example_mime_extension t =
     (if t = ''image/png'' then Some ''png'' else if t = ''image/jpeg'' then Some ''jpeg'' else None)"

definition example_readFile :: "string \<Rightarrow> string option" where
  "example_readFile p = Some ''<html></html>''"

definition example_formatName :: "string option \<Rightarrow> string" where
  "example_formatName n = (case n of None \<Rightarrow> ''undefined'' | Some s \<Rightarrow> s)"

definition example_part :: "string \<Rightarrow> string \<Rightarrow> string \<Rightarrow> part" where
  "example_part fname ctype bytes =
     \<lparr>field = ''images'', filename = fname, content_type = ctype, content = bytes, tmp_path = ''/tmp/upload''\<rparr>"

definition example_parts :: "part list" where
  "example_parts =
     [example_part ''Logo.PNG'' ''image/png'' ''abc'',
      example_part ''photo.jpg'' ''image/jpeg'' ''defg'',
      example_part ''banner.png'' ''image/png'' ''hi'']"

definition example_upload :: "upload_event list \<Rightarrow> upload_state" where
  "example_upload evs =
     parseMultipart example_md5 example_slugFilename example_mime_extension example_readFile
       example_formatName ''tpl'' ''groups'' [] example_parts evs"

definition example_result :: outcome where
  "example_result =
     Resolved (Fields [(''assets'', Object [(''logo.png'', ''tpl-md5ofabc.png''),
                                            (''photo.jpeg'', ''tpl-md5ofdefg.jpeg''),
                                            (''banner.png'', ''tpl-md5ofhi.png'')])])"

definition example_unknown_file :: uploaded_file where
  "example_unknown_file =
     \<lparr>file_size = 3, path = ''/tmp/upload'', name = ''data.bin'', type = ''application/x-unknown'',
      hash = ''md5ofabc'', originalName = None\<rparr>"

definition example_logo :: part where
  "example_logo = example_part ''Logo.PNG'' ''image/png'' ''abc''"

definition example_banner :: part where
  "example_banner = example_part ''banner.png'' ''image/png'' ''hi''"


text \<open>A document with one image whose reference is relative and begins with \<^verbatim>\<open>http\<close>.\<close>

definition example_relative_doc :: "element list" where
  "example_relative_doc = [\<lparr>tag = ''img'', attribs = [(''src'', ''httpdocs/logo.png'')]\<rparr>]"

definition example_relative_html :: string where
  "example_relative_html = ''<img src=httpdocs/logo.png>''"

text \<open>A part with three bytes whose file name is made of question marks.\<close>

definition example_unsluggable :: part where
  "example_unsluggable = example_part ''???'' ''image/png'' ''xyz''"

section \<open>The export manifest\<close>

lemma set_foldl_uniq_push: "set (foldl uniq_push acc xs) = set acc \<union> set xs"
  by (induction xs arbitrary: acc) (auto simp: uniq_push_def)

lemma distinct_foldl_uniq_push: "distinct acc \<Longrightarrow> distinct (foldl uniq_push acc xs)"
  by (induction xs arbitrary: acc) (auto simp: uniq_push_def)

lemma set_uniq: "set (uniq xs) = set xs"
  by (simp add: uniq_def set_foldl_uniq_push)

lemma distinct_uniq: "distinct (uniq xs)"
  by (simp add: uniq_def distinct_foldl_uniq_push)

lemma urlReg_exec_None: "urlReg_exec style = None \<longleftrightarrow> \<not> sublist ''url('' style"
  unfolding urlReg_exec_def
  by (induction style) (auto simp: sublist_Cons_right split: option.splits)

lemma set_styleUrls_each:
  "set (styleUrls_each acc el) =
     set acc \<union> {u. isHttpUrl u \<and> (\<exists>style. attr ''style'' el = Some style \<and> urlReg_exec style = Some u)}"
proof (cases "attr ''style'' el")
  case None
  then show ?thesis by (simp add: styleUrls_each_def)
next
  case (Some style)
  show ?thesis
  proof (cases "urlReg_exec style")
    case None
    with Some show ?thesis by (simp add: styleUrls_each_def)
  next
    case (Some r)
    then have "sublist ''url('' style" using urlReg_exec_None [of style] by auto
    with Some \<open>attr ''style'' el = Some style\<close> show ?thesis
      by (auto simp: styleUrls_each_def isHttpUrl_def)
  qed
qed

lemma set_styleUrls_fold:
  "set (foldl styleUrls_each acc doc) =
     set acc \<union>
     {u. isHttpUrl u \<and>
         (\<exists>el \<in> set doc. \<exists>style. attr ''style'' el = Some style \<and> urlReg_exec style = Some u)}"
  by (induction doc arbitrary: acc) (auto simp: set_styleUrls_each)

lemma set_map_filter: "set (List.map_filter f xs) = {y. \<exists>x \<in> set xs. f x = Some y}"
  by (induction xs) (auto simp: List.map_filter_def)

text \<open>
  What the manifest holds, for every document: it has no value twice, and it holds exactly
  the references that \<^const>\<open>isHttpUrl\<close> accepts among the \<^verbatim>\<open>src\<close> attributes of the
  \<^verbatim>\<open>img\<close> elements, the \<^verbatim>\<open>background\<close> attributes of all elements, and for every
  \<^verbatim>\<open>style\<close> attribute the one reference \<^const>\<open>urlReg_exec\<close> finds in it.
\<close>

lemma allImages_manifest:
  "distinct (allImages doc) \<and>
   set (allImages doc) =
     {u. isHttpUrl u \<and>
         ((\<exists>el \<in> set doc. tag el = ''img'' \<and> attr ''src'' el = Some u) \<or>
          (\<exists>el \<in> set doc. attr ''background'' el = Some u) \<or>
          (\<exists>el \<in> set doc. \<exists>style. attr ''style'' el = Some style \<and> urlReg_exec style = Some u))}"
  unfolding allImages_def imgUrls_def bgUrls_def styleUrls_def
  by (auto simp: set_uniq distinct_uniq set_styleUrls_fold set_map_filter)

text \<open>
  Claim C4 at a failing input. The claim restricts the manifest to absolute URLs and says
  that relative references never appear; the code says the same of itself ("relatives path
  are not handled"). But \<^const>\<open>isHttpUrl\<close> tests only that a reference begins with the
  four characters \<^verbatim>\<open>http\<close>. The reference \<^verbatim>\<open>httpdocs/logo.png\<close> of
  \<^verbatim>\<open><img src=httpdocs/logo.png>\<close> is relative: Node finds no protocol and no host in it. It
  is in the manifest all the same. The export goes on to rewrite it to
  \<^verbatim>\<open>images/httpdocs-logo.png\<close> and to request it; the request package throws
  \<^verbatim>\<open>Invalid URI\<close>, so the handler ends with this error and nothing is archived.
\<close>

theorem relative_reference_in_manifest:
  "allImages example_relative_doc = [''httpdocs/logo.png''] \<and>
   url_parse ''httpdocs/logo.png'' =
     Inr \<lparr>url_protocol = None, url_host = None, url_hostname = None, url_port = None,
          url_path = Some ''httpdocs/logo.png'', url_search = None\<rparr> \<and>
   rewrite url_pathname (allImages example_relative_doc) example_relative_html =
     Inr ''<img src=images/httpdocs-logo.png>'' \<and>
   zip_handler example_named example_getSlug url_pathname request_init (Some (Some ''news.html''))
     example_relative_doc example_relative_html [] = Inl (InvalidURI ''httpdocs/logo.png'')"
proof -
  have m: "allImages example_relative_doc = [''httpdocs/logo.png'']"
    by code_simp
  have p: "url_parse ''httpdocs/logo.png'' =
     Inr \<lparr>url_protocol = None, url_host = None, url_hostname = None, url_port = None,
          url_path = Some ''httpdocs/logo.png'', url_search = None\<rparr>"
    by code_simp
  have r: "rewrite url_pathname [''httpdocs/logo.png''] example_relative_html =
     Inr ''<img src=images/httpdocs-logo.png>''"
    by code_simp
  have q: "imagesRequest url_pathname request_init [''httpdocs/logo.png''] = Inl (InvalidURI ''httpdocs/logo.png'')"
    by code_simp
  have z: "zip_handler example_named example_getSlug url_pathname request_init (Some (Some ''news.html''))
     example_relative_doc example_relative_html [] = Inl (InvalidURI ''httpdocs/logo.png'')"
    unfolding zip_handler_def zip_start_def m r q by (simp add: Let_def)
  show ?thesis unfolding m by (intro conjI refl p r z)
qed
section \<open>The path name of a well-formed absolute URL\<close>




















section \<open>The rewriting of the HTML\<close>

declare replace_from.simps [simp del]

lemma replace_from_absent:
  "\<not> sublist pat s \<Longrightarrow> replace_from pat tpl pre s = s"
proof (induction pat tpl pre s rule: replace_from.induct)
  case (1 pat tpl pre s)
  show ?case
  proof (cases "pat = [] \<or> s = []")
    case True
    then show ?thesis by (subst replace_from.simps) simp
  next
    case False
    from "1.prems" have np: "\<not> prefix pat s" using prefix_imp_sublist by blast
    from "1.prems" have "\<not> sublist pat (tl s)"
      by (cases s) (auto simp: sublist_Cons_right)
    with False np have "replace_from pat tpl (pre @ [hd s]) (tl s) = tl s"
      by (intro "1.IH"(2)) auto
    with False np show ?thesis by (subst replace_from.simps) simp
  qed
qed

lemma getSubstitution_plain:
  "CHR ''$'' \<notin> set tpl \<Longrightarrow> getSubstitution tpl m pre post = tpl"
  by (induction tpl m pre post rule: getSubstitution.induct) auto

lemma replace_from_plain:
  "CHR ''$'' \<notin> set tpl \<Longrightarrow> replace_from pat tpl pre s = replace_from pat tpl pre' s"
proof (induction pat tpl pre s arbitrary: pre' rule: replace_from.induct)
  case (1 pat tpl pre s)
  show ?case
  proof (cases "pat = [] \<or> s = []")
    case True
    then show ?thesis by (subst (1 2) replace_from.simps) simp
  next
    case False
    show ?thesis
    proof (cases "prefix pat s")
      case True
      have "replace_from pat tpl (pre @ pat) (drop (length pat) s) =
            replace_from pat tpl (pre' @ pat) (drop (length pat) s)"
        using False True "1.prems" by (intro "1.IH"(1)) auto
      with False True "1.prems" show ?thesis
        by (subst (1 2) replace_from.simps) (simp add: getSubstitution_plain)
    next
      case np: False
      have "replace_from pat tpl (pre @ [hd s]) (tl s) = replace_from pat tpl (pre' @ [hd s]) (tl s)"
        using False np "1.prems" by (intro "1.IH"(2)) auto
      with False np show ?thesis by (subst (1 2) replace_from.simps) simp
    qed
  qed
qed

lemma prefix_overlap:
  assumes "pat \<noteq> []" and "prefix pat ((c # a) @ pat @ b)"
  shows "prefix pat ((c # a) @ butlast pat)"
proof -
  have split: "(c # a) @ pat @ b = ((c # a) @ butlast pat) @ (last pat # b)"
    using assms(1) by simp
  from assms(2) have "prefix pat (((c # a) @ butlast pat) @ (last pat # b))"
    unfolding split .
  then consider "prefix pat ((c # a) @ butlast pat)"
    | us where "pat = ((c # a) @ butlast pat) @ us"
    unfolding prefix_append by blast
  then show ?thesis
  proof cases
    case 1
    then show ?thesis .
  next
    case 2
    then have "length pat = length ((c # a) @ butlast pat) + length us"
      by (metis length_append)
    moreover have "0 < length pat" using assms(1) by simp
    ultimately have "length us = 0" by simp
    then have "us = []" by simp
    with 2 show ?thesis by simp
  qed
qed

lemma replace_from_leftmost:
  "pat \<noteq> [] \<Longrightarrow> \<not> sublist pat (a @ butlast pat) \<Longrightarrow>
   replace_from pat tpl pre (a @ pat @ b) =
     a @ getSubstitution tpl pat (pre @ a) b @ replace_from pat tpl (pre @ a @ pat) b"
proof (induction a arbitrary: pre)
  case Nil
  then show ?case by (subst replace_from.simps) simp
next
  case (Cons c a)
  have np: "\<not> prefix pat ((c # a) @ pat @ b)"
  proof
    assume "prefix pat ((c # a) @ pat @ b)"
    from prefix_overlap [OF Cons.prems(1) this] Cons.prems(2)
    show False using prefix_imp_sublist by blast
  qed
  have "\<not> sublist pat (a @ butlast pat)"
    using Cons.prems(2) by (auto simp: sublist_Cons_right)
  from Cons.IH [OF Cons.prems(1) this, of "pre @ [c]"] np Cons.prems(1)
  show ?case by (subst replace_from.simps) simp
qed

lemma rewrite_foldl:
  "\<forall>u \<in> set manifest. getImageName pathname u = Inr (name_of u) \<Longrightarrow>
   rewrite pathname manifest html =
     Inr (foldl (\<lambda>h u. replace_all u (imagesFolder @ ''/'' @ name_of u) h) html manifest)"
  by (induction manifest arbitrary: html) auto

lemma rewrite_untouched:
  "\<forall>u \<in> set manifest. u \<noteq> [] \<and> (\<exists>n. getImageName pathname u = Inr n) \<and> \<not> sublist u html \<Longrightarrow>
   rewrite pathname manifest html = Inr html"
  by (induction manifest) (auto simp: replace_all_def replace_from_absent)

text \<open>
  Claim C5, as amended. When every name can be derived, the rewriting is a fold over the
  manifest, in the order of the manifest, of a global exact-string substitution of the URL
  by \<^verbatim>\<open>images/<name>\<close> on the raw HTML. One substitution scans from the left: when the
  leftmost occurrence of the URL stands behind the text \<open>a\<close>, the result is \<open>a\<close>, the
  replacement, and the substitution applied to what follows the occurrence (the replacement
  is taken literally when it holds no dollar sign). Text in which the URL does not occur is
  returned as it is, and so is HTML in which no URL of the manifest occurs, relative
  references included.
\<close>

theorem rewrite_global_substitution:
  "((\<forall>u \<in> set manifest. getImageName pathname u = Inr (name_of u)) \<longrightarrow>
      rewrite pathname manifest html =
        Inr (foldl (\<lambda>h u. replace_all u (imagesFolder @ ''/'' @ name_of u) h) html manifest)) \<and>
   (url \<noteq> [] \<and> CHR ''$'' \<notin> set tpl \<and> \<not> sublist url (a @ butlast url) \<longrightarrow>
      replace_all url tpl (a @ url @ b) = a @ tpl @ replace_all url tpl b) \<and>
   (url \<noteq> [] \<and> \<not> sublist url s \<longrightarrow> replace_all url tpl' s = s) \<and>
   ((\<forall>u \<in> set manifest. u \<noteq> [] \<and> (\<exists>n. getImageName pathname u = Inr n) \<and> \<not> sublist u html) \<longrightarrow>
      rewrite pathname manifest html = Inr html)"
proof (intro conjI impI)
  assume "\<forall>u \<in> set manifest. getImageName pathname u = Inr (name_of u)"
  then show "rewrite pathname manifest html =
        Inr (foldl (\<lambda>h u. replace_all u (imagesFolder @ ''/'' @ name_of u) h) html manifest)"
    by (rule rewrite_foldl)
next
  assume a: "url \<noteq> [] \<and> CHR ''$'' \<notin> set tpl \<and> \<not> sublist url (a @ butlast url)"
  then have "replace_from url tpl [] (a @ url @ b) =
               a @ getSubstitution tpl url ([] @ a) b @ replace_from url tpl ([] @ a @ url) b"
    by (intro replace_from_leftmost) simp_all
  with a show "replace_all url tpl (a @ url @ b) = a @ tpl @ replace_all url tpl b"
    using replace_from_plain [of tpl url "a @ url" b "[]"]
    by (simp add: replace_all_def getSubstitution_plain)
next
  assume "url \<noteq> [] \<and> \<not> sublist url s"
  then show "replace_all url tpl' s = s" by (simp add: replace_all_def replace_from_absent)
next
  assume "\<forall>u \<in> set manifest. u \<noteq> [] \<and> (\<exists>n. getImageName pathname u = Inr n) \<and> \<not> sublist u html"
  then show "rewrite pathname manifest html = Inr html" by (rule rewrite_untouched)
qed

text \<open>
  Claim C5 as the specification states it fails: it says that after the rewriting no URL of
  the manifest remains in the HTML. The substitution continues behind a replaced occurrence,
  so of two overlapping occurrences only the first is replaced: with
  \<^verbatim>\<open><img src=http://a/http>\<close> followed by the text \<^verbatim>\<open>http://a/http://a/http\<close>, the URL
  \<^verbatim>\<open>http://a/http\<close> is in the manifest and still occurs in the rewritten HTML.
\<close>

theorem rewrite_overlap_counterexample:
  "rewrite url_pathname (allImages [\<lparr>tag = ''img'', attribs = [(''src'', ''http://a/http'')]\<rparr>])
     ''<img src=http://a/http>http://a/http://a/http'' =
     Inr ''<img src=images/http>images/http://a/http'' \<and>
   ''http://a/http'' \<in> set (allImages [\<lparr>tag = ''img'', attribs = [(''src'', ''http://a/http'')]\<rparr>]) \<and>
   sublist ''http://a/http'' ''<img src=images/http>images/http://a/http''"
  by code_simp

text \<open>The theorem at the example document and at a document with relative references only.\<close>

theorem rewrite_global_substitution_witness:
  "rewrite url_pathname example_manifest example_html =
     Inr ''<img src=images/x.png><img src=images/y.png><img src=images/z.png>'' \<and>
   replace_all ''http://a.com/x.png'' ''images/x.png'' (''<img src='' @ ''http://a.com/x.png'' @ ''><a href=http://a.com/x.png>'') =
     ''<img src='' @ ''images/x.png'' @ ''><a href=images/x.png>'' \<and>
   replace_all ''http://a.com/x.png'' ''images/x.png'' ''<img src=logo.png>'' = ''<img src=logo.png>'' \<and>
   rewrite url_pathname example_manifest ''<img src=logo.png><img src=/static/http.png>'' =
     Inr ''<img src=logo.png><img src=/static/http.png>''"
proof -
  note T = rewrite_global_substitution [where pathname = url_pathname and manifest = example_manifest]
  have names: "\<forall>u \<in> set example_manifest. getImageName url_pathname u = Inr (example_name_of u)"
    by code_simp
  have fold: "foldl (\<lambda>h u. replace_all u (imagesFolder @ ''/'' @ example_name_of u) h) example_html example_manifest =
              ''<img src=images/x.png><img src=images/y.png><img src=images/z.png>''"
    by code_simp
  have w1: "rewrite url_pathname example_manifest example_html =
              Inr ''<img src=images/x.png><img src=images/y.png><img src=images/z.png>''"
    using T [where name_of = example_name_of and html = example_html, THEN conjunct1, THEN mp, OF names]
    unfolding fold .
  have left: "''http://a.com/x.png'' \<noteq> [] \<and> CHR ''$'' \<notin> set ''images/x.png'' \<and>
              \<not> sublist ''http://a.com/x.png'' (''<img src='' @ butlast ''http://a.com/x.png'')"
    by code_simp
  have rest: "replace_all ''http://a.com/x.png'' ''images/x.png'' ''><a href=http://a.com/x.png>'' = ''><a href=images/x.png>''"
    by code_simp
  have w2: "replace_all ''http://a.com/x.png'' ''images/x.png'' (''<img src='' @ ''http://a.com/x.png'' @ ''><a href=http://a.com/x.png>'') =
            ''<img src='' @ ''images/x.png'' @ ''><a href=images/x.png>''"
    using T [where url = "''http://a.com/x.png''" and tpl = "''images/x.png''" and a = "''<img src=''"
               and b = "''><a href=http://a.com/x.png>''", THEN conjunct2, THEN conjunct1, THEN mp, OF left]
    unfolding rest .
  have absent: "''http://a.com/x.png'' \<noteq> [] \<and> \<not> sublist ''http://a.com/x.png'' ''<img src=logo.png>''"
    by code_simp
  have w3: "replace_all ''http://a.com/x.png'' ''images/x.png'' ''<img src=logo.png>'' = ''<img src=logo.png>''"
    by (rule T [where url = "''http://a.com/x.png''" and s = "''<img src=logo.png>''",
                THEN conjunct2, THEN conjunct2, THEN conjunct1, THEN mp, OF absent])
  have none: "\<forall>u \<in> set example_manifest.
                u \<noteq> [] \<and> (\<exists>n. getImageName url_pathname u = Inr n) \<and>
                \<not> sublist u ''<img src=logo.png><img src=/static/http.png>''"
  proof
    fix u assume u: "u \<in> set example_manifest"
    with names have "\<exists>n. getImageName url_pathname u = Inr n" by blast
    moreover have "\<forall>u \<in> set example_manifest. u \<noteq> [] \<and> \<not> sublist u ''<img src=logo.png><img src=/static/http.png>''"
      by code_simp
    ultimately show "u \<noteq> [] \<and> (\<exists>n. getImageName url_pathname u = Inr n) \<and>
                \<not> sublist u ''<img src=logo.png><img src=/static/http.png>''"
      using u by blast
  qed
  have w4: "rewrite url_pathname example_manifest ''<img src=logo.png><img src=/static/http.png>'' =
              Inr ''<img src=logo.png><img src=/static/http.png>''"
    by (rule T [where html = "''<img src=logo.png><img src=/static/http.png>''",
                THEN conjunct2, THEN conjunct2, THEN conjunct2, THEN mp, OF none])
  show ?thesis by (intro conjI w1 w2 w3 w4)
qed

section \<open>secureHtml\<close>

declare replace_literal.simps [simp del]
declare to_hex.simps [simp del]

lemma replace_literal_absent:
  "\<not> sublist pat s \<Longrightarrow> replace_literal pat rep s = s"
proof (induction pat rep s rule: replace_literal.induct)
  case (1 pat rep s)
  show ?case
  proof (cases "pat = [] \<or> s = []")
    case True
    then show ?thesis by (subst replace_literal.simps) simp
  next
    case False
    from "1.prems" have np: "\<not> prefix pat s" using prefix_imp_sublist by blast
    from "1.prems" have "\<not> sublist pat (tl s)"
      by (cases s) (auto simp: sublist_Cons_right)
    with False np have "replace_literal pat rep (tl s) = tl s" by (intro "1.IH"(2)) auto
    with False np show ?thesis by (subst replace_literal.simps) simp
  qed
qed

lemma hex_digit_plain: "d < 16 \<Longrightarrow> \<not> regexBmpWhitelist (hex_digit d)"
  by (simp add: hex_digit_def regexBmpWhitelist_def)

lemma to_hex_plain: "u \<in> set (to_hex n) \<Longrightarrow> \<not> regexBmpWhitelist u"
proof (induction n arbitrary: u rule: to_hex.induct)
  case (1 n)
  show ?case
  proof (cases "n < 16")
    case True
    with "1.prems" show ?thesis by (subst (asm) to_hex.simps) (auto simp: hex_digit_plain)
  next
    case False
    with "1.prems" have "u \<in> set (to_hex (n div 16)) \<or> u = hex_digit (n mod 16)"
      by (subst (asm) to_hex.simps) auto
    with False "1.IH" show ?thesis by (auto simp: hex_digit_plain)
  qed
qed

lemma hexEscape_plain: "u \<in> set (hexEscape cp) \<Longrightarrow> \<not> regexBmpWhitelist u"
  by (auto simp: hexEscape_def units_def regexBmpWhitelist_def dest: to_hex_plain)

lemma encodeBmp_plain: "u \<in> set (encodeBmp s) \<Longrightarrow> \<not> regexBmpWhitelist u"
  by (auto simp: encodeBmp_def dest: hexEscape_plain split: if_splits)

lemma encodeBmp_fixed: "\<forall>u \<in> set s. \<not> regexBmpWhitelist u \<Longrightarrow> encodeBmp s = s"
  by (induction s) (auto simp: encodeBmp_def)

lemma surrogate_whitelisted: "0xD800 \<le> u \<Longrightarrow> u \<le> 0xDBFF \<Longrightarrow> regexBmpWhitelist u"
  by (simp add: regexBmpWhitelist_def)

lemma encodeAstral_fixed: "\<forall>u \<in> set s. \<not> regexBmpWhitelist u \<Longrightarrow> encodeAstral s = s"
proof (induction s rule: encodeAstral.induct)
  case (1 high low s)
  from "1.prems" have nc: "\<not> (0xD800 \<le> high \<and> high \<le> 0xDBFF \<and> 0xDC00 \<le> low \<and> low \<le> 0xDFFF)"
    using surrogate_whitelisted [of high] by auto
  from "1.prems" have tl: "\<forall>u \<in> set (low # s). \<not> regexBmpWhitelist u" by simp
  have "encodeAstral (low # s) = low # s" by (rule "1.IH"(2) [OF nc tl])
  with nc show ?case by (simp only: encodeAstral.simps if_False)
qed simp_all

lemma table_ok_None:
  assumes "table_ok named" and "\<not> regexBmpWhitelist (last k)"
  shows "named k = None"
proof (cases "named k")
  case None
  then show ?thesis .
next
  case (Some n)
  with assms(1) have "regexBmpWhitelist (last k)" unfolding table_ok_def by blast
  with assms(2) show ?thesis by simp
qed

lemma encodeNonAscii_fixed:
  "table_ok named \<Longrightarrow> \<forall>u \<in> set s. \<not> regexBmpWhitelist u \<Longrightarrow> encodeNonAscii named s = s"
proof (induction named s rule: encodeNonAscii.induct)
  case (1 named)
  then show ?case by simp
next
  case (2 named a)
  then have "named [a] = None" by (intro table_ok_None) simp_all
  then show ?case by simp
next
  case (3 named a b s)
  from "3.prems" have n2: "named [a, b] = None" by (intro table_ok_None) simp_all
  from "3.prems" have n1: "named [a] = None" by (intro table_ok_None) simp_all
  from "3.prems"(2) have tl: "\<forall>u \<in> set (b # s). \<not> regexBmpWhitelist u" by simp
  have "encodeNonAscii named (b # s) = b # s"
    by (rule "3.IH"(1) [OF n2 n1 "3.prems"(1) tl])
  with n1 n2 show ?case by simp
qed

lemma shorten_fixed:
  assumes "\<forall>u \<in> set s. \<not> regexBmpWhitelist u" and "0x20D2 \<in> set pat"
  shows "replace_literal pat rep s = s"
proof -
  have "\<not> sublist pat s"
  proof
    assume "sublist pat s"
    then have "set pat \<subseteq> set s" by (rule set_mono_sublist)
    with assms(2) have "0x20D2 \<in> set s" by (rule subsetD [rotated])
    with assms(1) have "\<not> regexBmpWhitelist 0x20D2" by (rule bspec)
    then show False by (simp add: regexBmpWhitelist_def)
  qed
  then show ?thesis by (rule replace_literal_absent)
qed

lemma he_encode_plain: "u \<in> set (he_encode named s) \<Longrightarrow> \<not> regexBmpWhitelist u"
  unfolding he_encode_def by (rule encodeBmp_plain)

lemma he_encode_fixed:
  assumes "table_ok named" and "\<forall>u \<in> set s. \<not> regexBmpWhitelist u"
  shows "he_encode named s = s"
proof -
  have a: "replace_literal (units ''&gt;'' @ [0x20D2]) (units ''&nvgt;'') s = s"
    by (rule shorten_fixed [OF assms(2)]) simp
  have b: "replace_literal (units ''&lt;'' @ [0x20D2]) (units ''&nvlt;'') s = s"
    by (rule shorten_fixed [OF assms(2)]) simp
  show ?thesis
    unfolding he_encode_def a b encodeNonAscii_fixed [OF assms] encodeAstral_fixed [OF assms(2)]
    by (rule encodeBmp_fixed [OF assms(2)])
qed

lemma tab_whitelisted: "regexBmpWhitelist 9"
  by (simp add: regexBmpWhitelist_def)

lemma tabs_fixed:
  assumes "\<forall>u \<in> set s. \<not> regexBmpWhitelist u"
  shows "map (\<lambda>u. if u = 9 then 32 else u) s = s"
proof (rule map_idI)
  fix u assume "u \<in> set s"
  with assms have "\<not> regexBmpWhitelist u" by blast
  with tab_whitelisted have "u \<noteq> 9" by metis
  then show "(if u = 9 then 32 else u) = u" by simp
qed

lemma example_named_ok: "table_ok example_named"
  by (auto simp: table_ok_def example_named_def units_def regexBmpWhitelist_def split: if_splits)

text \<open>
  Claim C8. For every table of named references as the package has it (\<^const>\<open>table_ok\<close>) and
  for every input, sanitizing twice gives what sanitizing once gives, and the output holds
  no tab (code unit 9). This covers the inputs the claim names, those without tabs and
  without \<^verbatim>\<open>&gt;\<close> or \<^verbatim>\<open>&lt;\<close> before U+20D2; the property needs neither restriction.
\<close>

theorem secureHtml_idempotent:
  assumes "table_ok named"
  shows "secureHtml named (secureHtml named html) = secureHtml named html \<and>
         9 \<notin> set (secureHtml named html)"
proof -
  have plain: "\<forall>u \<in> set (secureHtml named html). \<not> regexBmpWhitelist u"
    unfolding secureHtml_def using he_encode_plain by blast
  have "secureHtml named (secureHtml named html) = secureHtml named html"
    using he_encode_fixed [OF assms plain] tabs_fixed [OF plain]
    by (simp add: secureHtml_def [of named "secureHtml named html"])
  moreover have "9 \<notin> set (secureHtml named html)"
    using plain tab_whitelisted by blast
  ultimately show ?thesis by simp
qed

text \<open>The theorem at a table with one entry and an input with a tab and an accented letter.\<close>

theorem secureHtml_idempotent_witness:
  "table_ok example_named \<and>
   secureHtml example_named (secureHtml example_named [60, 98, 62, 9, 233, 38]) =
     secureHtml example_named [60, 98, 62, 9, 233, 38] \<and>
   9 \<notin> set (secureHtml example_named [60, 98, 62, 9, 233, 38])"
  using secureHtml_idempotent [OF example_named_ok, of "[60, 98, 62, 9, 233, 38]"] example_named_ok
  by simp

section \<open>The archive\<close>

lemma list_all_update_True: "list_all (\<lambda>b. b) xs \<Longrightarrow> list_all (\<lambda>b. b) (xs[i := True])"
  by (induction xs arbitrary: i) (auto split: nat.splits)

lemma zip_inv_on_event: "zip_inv n st \<Longrightarrow> zip_inv n (on_event st ev)"
  by (cases ev) (auto simp: zip_inv_def on_event_def list_all_update_True)

lemma zip_inv_resume: "zip_inv n st \<Longrightarrow> zip_inv n (resume st)"
  by (auto simp: zip_inv_def resume_def)

lemma zip_inv_foldl:
  "zip_inv n st \<Longrightarrow> zip_inv n (foldl (\<lambda>s ev. resume (on_event s ev)) st evs)"
  by (induction evs arbitrary: st) (auto intro: zip_inv_on_event zip_inv_resume)

lemma length_imagesRequest: "imagesRequest pathname request us = Inr ns \<Longrightarrow> length ns = length us"
  by (induction us arbitrary: ns) (auto split: sum.splits option.splits)

lemma zip_start_inv:
  "zip_start named getSlug pathname request mailing doc html = Inr st \<Longrightarrow>
   zip_inv (length (allImages doc)) st"
  by (auto simp: zip_start_def zip_inv_def Let_def length_imagesRequest split: option.splits sum.splits)

text \<open>
  Claim C2. Whatever events arrive and in whatever order, in every state an export reaches
  there is one deferred for each image of the manifest; if \<^verbatim>\<open>archive.finalize()\<close> has been
  called, every one of them is resolved; and if \<^verbatim>\<open>res.end()\<close> has been called, the archive
  has been finalized.
\<close>

theorem finalize_after_all_settled:
  assumes "zip_handler named getSlug pathname request mailing doc html evs = Inr st"
  shows "length (resolved st) = length (allImages doc) \<and>
         (finalized st \<longrightarrow> list_all (\<lambda>b. b) (resolved st)) \<and>
         (ended st \<longrightarrow> finalized st)"
proof -
  from assms obtain st0 where
    start: "zip_start named getSlug pathname request mailing doc html = Inr st0" and
    run: "st = zip_run st0 evs"
    by (auto simp: zip_handler_def split: sum.splits)
  from start have "zip_inv (length (allImages doc)) st0" by (rule zip_start_inv)
  then have "zip_inv (length (allImages doc)) (zip_run st0 evs)"
    unfolding zip_run_def by (intro zip_inv_foldl zip_inv_resume)
  with run show ?thesis by (simp add: zip_inv_def)
qed

lemma example_allImages:
  "allImages example_doc = [''http://a.com/x.png'', ''http://a.com/y.png'', ''http://a.com/z.png'']"
  by code_simp

lemma example_rewrite:
  "rewrite url_pathname [''http://a.com/x.png'', ''http://a.com/y.png'', ''http://a.com/z.png''] example_html
     = Inr ''<img src=images/x.png><img src=images/y.png><img src=images/z.png>''"
  by code_simp

lemma example_imagesRequest:
  "imagesRequest url_pathname request_init [''http://a.com/x.png'', ''http://a.com/y.png'', ''http://a.com/z.png'']
     = Inr [(''http://a.com/x.png'', ''x.png''), (''http://a.com/y.png'', ''y.png''),
            (''http://a.com/z.png'', ''z.png'')]"
  by code_simp

lemma example_getName: "getName example_getSlug (Some ''news.html'') = ''news''"
  by code_simp

lemma example_zip_start:
  "zip_start example_named example_getSlug url_pathname request_init (Some (Some ''news.html'')) example_doc example_html =
     Inr \<lparr>archive_name = ''news'',
          images = [(''http://a.com/x.png'', ''x.png''), (''http://a.com/y.png'', ''y.png''),
                    (''http://a.com/z.png'', ''z.png'')],
          entries = [\<lparr>source = example_archived_html, entry_name = ''news.html'', entry_prefix = ''news/''\<rparr>],
          resolved = [False, False, False], finalized = False, ended = False, passed_to_next = []\<rparr>"
  unfolding zip_start_def example_allImages example_rewrite example_imagesRequest example_getName
  by (simp add: Let_def example_getName example_archived_html_def)

text \<open>
  Claim C1 at a failing input. Three images are requested; the second request is answered
  with status 500. The handler of \<^verbatim>\<open>response\<close> returns without resolving the deferred, so
  after the three responses the archive holds the HTML and the two other images, the second
  deferred is still pending and the archive is not finalized.
\<close>

theorem non200_response_blocks_finalize:
  "zip_handler example_named example_getSlug url_pathname request_init (Some (Some ''news.html'')) example_doc example_html
     [Response 0 200, Response 1 500, Response 2 200] =
     Inr \<lparr>archive_name = ''news'',
          images = [(''http://a.com/x.png'', ''x.png''), (''http://a.com/y.png'', ''y.png''),
                    (''http://a.com/z.png'', ''z.png'')],
          entries = [\<lparr>source = example_archived_html, entry_name = ''news.html'', entry_prefix = ''news/''\<rparr>,
                     \<lparr>source = Stream ''http://a.com/x.png'', entry_name = ''x.png'', entry_prefix = ''news/images/''\<rparr>,
                     \<lparr>source = Stream ''http://a.com/z.png'', entry_name = ''z.png'', entry_prefix = ''news/images/''\<rparr>],
          resolved = [True, False, True], finalized = False, ended = False, passed_to_next = []\<rparr>"
  by (simp add: zip_handler_def example_zip_start zip_run_def resume_def on_event_def imagesFolder_def)

text \<open>
  The same export when the second request fails with a transport error instead: every
  deferred is resolved, the archive is finalized and the response is ended.
\<close>

theorem finalize_after_all_settled_witness:
  "zip_handler example_named example_getSlug url_pathname request_init (Some (Some ''news.html'')) example_doc example_html
     [Response 0 200, RequestError 1, Response 2 200, ArchiveEnd] =
     Inr \<lparr>archive_name = ''news'',
          images = [(''http://a.com/x.png'', ''x.png''), (''http://a.com/y.png'', ''y.png''),
                    (''http://a.com/z.png'', ''z.png'')],
          entries = [\<lparr>source = example_archived_html, entry_name = ''news.html'', entry_prefix = ''news/''\<rparr>,
                     \<lparr>source = Stream ''http://a.com/x.png'', entry_name = ''x.png'', entry_prefix = ''news/images/''\<rparr>,
                     \<lparr>source = Stream ''http://a.com/z.png'', entry_name = ''z.png'', entry_prefix = ''news/images/''\<rparr>],
          resolved = [True, True, True], finalized = True, ended = True, passed_to_next = []\<rparr> \<and>
   length [True, True, True] = length (allImages example_doc)"
proof -
  have run: "zip_handler example_named example_getSlug url_pathname request_init (Some (Some ''news.html'')) example_doc example_html
     [Response 0 200, RequestError 1, Response 2 200, ArchiveEnd] =
     Inr \<lparr>archive_name = ''news'',
          images = [(''http://a.com/x.png'', ''x.png''), (''http://a.com/y.png'', ''y.png''),
                    (''http://a.com/z.png'', ''z.png'')],
          entries = [\<lparr>source = example_archived_html, entry_name = ''news.html'', entry_prefix = ''news/''\<rparr>,
                     \<lparr>source = Stream ''http://a.com/x.png'', entry_name = ''x.png'', entry_prefix = ''news/images/''\<rparr>,
                     \<lparr>source = Stream ''http://a.com/z.png'', entry_name = ''z.png'', entry_prefix = ''news/images/''\<rparr>],
          resolved = [True, True, True], finalized = True, ended = True, passed_to_next = []\<rparr>"
    by (simp add: zip_handler_def example_zip_start zip_run_def resume_def on_event_def imagesFolder_def)
  from finalize_after_all_settled [OF run] run show ?thesis by simp
qed

text \<open>
  No later event helps: as long as request \<open>i\<close> gets neither an error nor a response with
  status 200, the archive is not finalized.
\<close>

lemma unresolved_stays:
  assumes "i < length (resolved st)" and "\<not> resolved st ! i" and "\<not> finalized st"
    and "\<forall>ev \<in> set evs. ev \<noteq> RequestError i \<and> ev \<noteq> Response i 200"
  shows "\<not> finalized (foldl (\<lambda>s ev. resume (on_event s ev)) st evs)"
  using assms
proof (induction evs arbitrary: st)
  case Nil
  then show ?case by simp
next
  case (Cons ev evs)
  let ?st = "resume (on_event st ev)"
  from Cons.prems have ev: "ev \<noteq> RequestError i" "ev \<noteq> Response i 200" by auto
  from Cons.prems(1,2,3) ev have a: "i < length (resolved (on_event st ev)) \<and> \<not> resolved (on_event st ev) ! i
        \<and> \<not> finalized (on_event st ev)"
    by (cases ev) (auto simp: on_event_def nth_list_update)
  then have b: "\<not> list_all (\<lambda>b. b) (resolved (on_event st ev))"
    by (auto simp: list_all_length)
  with a have "i < length (resolved ?st) \<and> \<not> resolved ?st ! i \<and> \<not> finalized ?st"
    by (simp add: resume_def)
  with Cons.IH [of ?st] Cons.prems(4) show ?case by simp
qed

section \<open>The name of an image in the archive and in the HTML\<close>











section \<open>Uploads\<close>

lemma first_failed_Some: "first_failed ws = Some e \<Longrightarrow> WFailed e \<in> set ws"
  by (induction ws rule: first_failed.induct) auto

lemma first_failed_None: "first_failed ws = None \<longleftrightarrow> (\<forall>e. WFailed e \<notin> set ws)"
  by (induction ws rule: first_failed.induct) auto

lemma all_done_no_failed: "list_all (\<lambda>w. w = WDone) ws \<Longrightarrow> first_failed ws = None"
  by (auto simp: first_failed_None list_all_iff)

lemma all_done_not_pending: "list_all (\<lambda>w. w = WDone) ws \<Longrightarrow> i < length ws \<Longrightarrow> ws ! i = WDone"
  by (simp add: list_all_length)

lemma failed_in_update: "WFailed e \<in> set ws \<Longrightarrow> ws ! i = WPending \<Longrightarrow> WFailed e \<in> set (ws[i := x])"
proof -
  assume a: "WFailed e \<in> set ws" and b: "ws ! i = WPending"
  then obtain j where j: "j < length ws" "ws ! j = WFailed e" by (auto simp: in_set_conv_nth)
  with b have "j \<noteq> i" by auto
  with j have "ws[i := x] ! j = WFailed e" by simp
  with j(1) show ?thesis by (metis length_list_update nth_mem)
qed

lemma failed_of_update:
  "WFailed e \<in> set (ws[i := WDone]) \<Longrightarrow> WFailed e \<in> set ws"
  by (metis insertE set_update_subset_insert subsetD write_status.distinct(5))

lemma upload_inv_start: "upload_inv fmt n (upload_start n)"
  by (simp add: upload_inv_def upload_start_def first_failed_None)

lemma settle_simps:
  "deferred (settle out st) = (if deferred st = Pending then out else deferred st)"
  "writes (settle out st) = writes st"
  "joined (settle out st) = joined st"
  "form_ended (settle out st) = form_ended st"
  by (auto simp: settle_def split: outcome.splits)

lemma upload_inv_FormEnd:
  assumes inv: "upload_inv fmt n st" and fmt: "\<forall>e. fmt \<noteq> Rejected (WriteError e)"
  shows "upload_inv fmt n (on_upload_event fmt st (FormEnd err))"
proof (cases "form_ended st")
  case True
  with inv show ?thesis by (simp add: on_upload_event_def)
next
  case False
  with inv have pend: "deferred st = Pending" "\<not> joined st" and len: "length (writes st) = n"
    by (auto simp: upload_inv_def)
  show ?thesis
  proof (cases err)
    case (Some e)
    with False pend len show ?thesis
      by (simp add: on_upload_event_def upload_inv_def settle_simps)
  next
    case None
    show ?thesis
    proof (cases "first_failed (writes st)")
      case (Some e)
      with None False pend len first_failed_Some [OF Some] all_done_no_failed [of "writes st"]
      show ?thesis
        by (auto simp: on_upload_event_def upload_inv_def settle_simps Let_def)
    next
      case ff: None
      with None False pend len fmt show ?thesis
        by (cases "list_all (\<lambda>w. w = WDone) (writes st)")
           (auto simp: on_upload_event_def upload_inv_def settle_simps Let_def)
    qed
  qed
qed

lemma upload_inv_WriteSettled:
  assumes inv: "upload_inv fmt n st" and fmt: "\<forall>e. fmt \<noteq> Rejected (WriteError e)"
  shows "upload_inv fmt n (on_upload_event fmt st (WriteSettled i r))"
proof (cases "i < length (writes st) \<and> writes st ! i = WPending")
  case False
  with inv show ?thesis by (auto simp: on_upload_event_def)
next
  case True
  then have i: "i < length (writes st)" and pend: "writes st ! i = WPending" by auto
  from i pend have not_done: "\<not> list_all (\<lambda>w. w = WDone) (writes st)"
    by (auto simp: list_all_length)
  show ?thesis
  proof (cases "joined st")
    case False
    with inv True show ?thesis
      by (auto simp: on_upload_event_def upload_inv_def Let_def)
  next
    case j: True
    show ?thesis
    proof (cases r)
      case (Some e)
      have mem: "WFailed e \<in> set ((writes st)[i := WFailed e])"
        using i by (simp add: set_update_memI)
      from inv j not_done have d: "deferred st = Pending \<or> (\<exists>e0. deferred st = Rejected (WriteError e0))"
        by (auto simp: upload_inv_def)
      from d show ?thesis
      proof
        assume "deferred st = Pending"
        with inv j True Some mem show ?thesis
          by (auto simp: on_upload_event_def upload_inv_def Let_def settle_simps)
      next
        assume "\<exists>e0. deferred st = Rejected (WriteError e0)"
        then obtain e0 where e0: "deferred st = Rejected (WriteError e0)" by blast
        with inv j have "WFailed e0 \<in> set (writes st)" by (auto simp: upload_inv_def)
        then have "WFailed e0 \<in> set ((writes st)[i := WFailed e])" using pend by (rule failed_in_update)
        with inv j True Some e0 show ?thesis
          by (auto simp: on_upload_event_def upload_inv_def Let_def settle_simps)
      qed
    next
      case None
      let ?ws = "(writes st)[i := WDone]"
      have ff: "first_failed ?ws \<noteq> None \<Longrightarrow> first_failed (writes st) \<noteq> None"
        using failed_of_update unfolding first_failed_None by blast
      from inv j not_done have d: "deferred st = Pending \<or> (\<exists>e0. deferred st = Rejected (WriteError e0))"
        by (auto simp: upload_inv_def)
      from d show ?thesis
      proof
        assume p: "deferred st = Pending"
        with inv j have "first_failed (writes st) = None" by (auto simp: upload_inv_def)
        with ff have "first_failed ?ws = None" by blast
        with inv j True None p fmt show ?thesis
          by (cases "list_all (\<lambda>w. w = WDone) ?ws")
             (auto simp: on_upload_event_def upload_inv_def Let_def settle_simps)
      next
        assume "\<exists>e0. deferred st = Rejected (WriteError e0)"
        then obtain e0 where e0: "deferred st = Rejected (WriteError e0)" by blast
        with inv j have "WFailed e0 \<in> set (writes st)" by (auto simp: upload_inv_def)
        then have "WFailed e0 \<in> set ?ws" using pend by (rule failed_in_update)
        with inv j True None e0 show ?thesis
          by (cases "list_all (\<lambda>w. w = WDone) ?ws")
             (auto simp: on_upload_event_def upload_inv_def Let_def settle_simps)
      qed
    qed
  qed
qed

lemma upload_inv_step:
  "upload_inv fmt n st \<Longrightarrow> \<forall>e. fmt \<noteq> Rejected (WriteError e) \<Longrightarrow> upload_inv fmt n (on_upload_event fmt st ev)"
  by (cases ev) (auto intro: upload_inv_FormEnd upload_inv_WriteSettled)

lemma upload_inv_foldl:
  "upload_inv fmt n st \<Longrightarrow> \<forall>e. fmt \<noteq> Rejected (WriteError e) \<Longrightarrow>
   upload_inv fmt n (foldl (on_upload_event fmt) st evs)"
  by (induction evs arbitrary: st) (auto intro: upload_inv_step)

lemma upload_inv_run:
  "\<forall>e. fmt \<noteq> Rejected (WriteError e) \<Longrightarrow> upload_inv fmt n (upload_run fmt n evs)"
  unfolding upload_run_def by (intro upload_inv_foldl upload_inv_start)

lemma imageToFields_error: "imageToFields fs f = Inl e \<Longrightarrow> e = TypeError"
  by (auto simp: imageToFields_def split: if_splits option.splits field_value.splits)

lemma imagesToFields_error: "imagesToFields fs fl = Inl e \<Longrightarrow> e = TypeError"
  by (induction fl arbitrary: fs) (auto split: sum.splits dest: imageToFields_error)

lemma format_result_not_write_error: "format_result readFile formatName formatter fs fl \<noteq> Rejected (WriteError e)"
  by (auto simp: format_result_def handleEditorUpload_def handleTemplatesUploads_def
           split: sum.splits option.splits list.splits if_splits dest: imagesToFields_error)

lemma example_received:
  "receive_all example_md5 example_slugFilename example_mime_extension ''tpl'' example_parts =
   \<lparr>files =
      [(''images'', \<lparr>file_size = 3, path = ''/tmp/upload'', name = ''tpl-md5ofabc.png'', type = ''image/png'',
                     hash = ''md5ofabc'', originalName = Some ''logo.png''\<rparr>),
       (''images'', \<lparr>file_size = 4, path = ''/tmp/upload'', name = ''tpl-md5ofdefg.jpeg'', type = ''image/jpeg'',
                     hash = ''md5ofdefg'', originalName = Some ''photo.jpeg''\<rparr>),
       (''images'', \<lparr>file_size = 2, path = ''/tmp/upload'', name = ''tpl-md5ofhi.png'', type = ''image/png'',
                     hash = ''md5ofhi'', originalName = Some ''banner.png''\<rparr>)],
    uploads =
      [\<lparr>file_size = 3, path = ''/tmp/upload'', name = ''tpl-md5ofabc.png'', type = ''image/png'',
         hash = ''md5ofabc'', originalName = Some ''logo.png''\<rparr>,
       \<lparr>file_size = 4, path = ''/tmp/upload'', name = ''tpl-md5ofdefg.jpeg'', type = ''image/jpeg'',
         hash = ''md5ofdefg'', originalName = Some ''photo.jpeg''\<rparr>,
       \<lparr>file_size = 2, path = ''/tmp/upload'', name = ''tpl-md5ofhi.png'', type = ''image/png'',
         hash = ''md5ofhi'', originalName = Some ''banner.png''\<rparr>],
    warnings = []\<rparr>"
  by code_simp

lemma example_format_result:
  "format_result example_readFile example_formatName ''groups''
     (form_fields [])
     (files (receive_all example_md5 example_slugFilename example_mime_extension ''tpl'' example_parts))
   = example_result"
  unfolding example_received example_result_def by code_simp

lemma example_upload_run: "example_upload evs = upload_run example_result 3 evs"
  unfolding example_upload_def parseMultipart_def Let_def example_format_result
  by (simp add: example_received eval_nat_numeral)

lemma deferred_settled_step:
  "deferred st \<noteq> Pending \<Longrightarrow> deferred (on_upload_event fmt st ev) = deferred st"
  by (cases ev) (auto simp: on_upload_event_def settle_simps Let_def split: option.splits)

lemma deferred_settled_foldl:
  "deferred st \<noteq> Pending \<Longrightarrow> deferred (foldl (on_upload_event fmt) st evs) = deferred st"
  by (induction evs arbitrary: st) (auto simp: deferred_settled_step)

lemma parseMultipart_append:
  "parseMultipart md5 slugFilename mime_extension readFile formatName options_prefix formatter text_fields ps (evs @ later) =
   foldl (on_upload_event
            (format_result readFile formatName formatter (form_fields text_fields)
               (files (receive_all md5 slugFilename mime_extension options_prefix ps))))
     (parseMultipart md5 slugFilename mime_extension readFile formatName options_prefix formatter text_fields ps evs) later"
  by (simp add: parseMultipart_def upload_run_def Let_def)

lemma parseMultipart_inv:
  "upload_inv
     (format_result readFile formatName formatter (form_fields text_fields)
        (files (receive_all md5 slugFilename mime_extension options_prefix ps)))
     (length (uploads (receive_all md5 slugFilename mime_extension options_prefix ps)))
     (parseMultipart md5 slugFilename mime_extension readFile formatName options_prefix formatter text_fields ps evs)"
  unfolding parseMultipart_def Let_def
  by (rule upload_inv_run) (simp add: format_result_not_write_error)

text \<open>
  Claim C3, as amended. In every state a submission reaches, whatever events arrive and in
  whatever order:
  \<^item> if the deferred is resolved with a result, \<^verbatim>\<open>Promise.all\<close> has been called and every
    write is done;
  \<^item> if \<^verbatim>\<open>Promise.all\<close> has been called and a write has failed, the deferred is rejected
    with the error of a failed write, so no result and no asset map is exposed;
  \<^item> a rejected deferred stays rejected with the same error, whatever happens later;
  \<^item> the error is the first one: when a write fails while the deferred is pending after
    \<^verbatim>\<open>Promise.all\<close> was called, the deferred is rejected with that error at once, without
    waiting for the other writes; and when writes have failed before \<^verbatim>\<open>Promise.all\<close> is
    called, it is rejected with the error of the first of them in the array.
\<close>

theorem upload_all_or_nothing:
  "(\<forall>r. deferred (parseMultipart md5 slugFilename mime_extension readFile formatName options_prefix formatter text_fields ps evs) = Resolved r \<longrightarrow>
        joined (parseMultipart md5 slugFilename mime_extension readFile formatName options_prefix formatter text_fields ps evs) \<and>
        list_all (\<lambda>w. w = WDone)
          (writes (parseMultipart md5 slugFilename mime_extension readFile formatName options_prefix formatter text_fields ps evs))) \<and>
   (joined (parseMultipart md5 slugFilename mime_extension readFile formatName options_prefix formatter text_fields ps evs) \<and>
    first_failed (writes (parseMultipart md5 slugFilename mime_extension readFile formatName options_prefix formatter text_fields ps evs)) \<noteq> None \<longrightarrow>
      (\<exists>e. deferred (parseMultipart md5 slugFilename mime_extension readFile formatName options_prefix formatter text_fields ps evs) = Rejected (WriteError e) \<and>
           WFailed e \<in> set (writes (parseMultipart md5 slugFilename mime_extension readFile formatName options_prefix formatter text_fields ps evs)))) \<and>
   (\<forall>e. deferred (parseMultipart md5 slugFilename mime_extension readFile formatName options_prefix formatter text_fields ps evs) = Rejected e \<longrightarrow>
        deferred (parseMultipart md5 slugFilename mime_extension readFile formatName options_prefix formatter text_fields ps (evs @ later)) = Rejected e) \<and>
   (joined (parseMultipart md5 slugFilename mime_extension readFile formatName options_prefix formatter text_fields ps evs) \<and>
    deferred (parseMultipart md5 slugFilename mime_extension readFile formatName options_prefix formatter text_fields ps evs) = Pending \<and>
    i < length (writes (parseMultipart md5 slugFilename mime_extension readFile formatName options_prefix formatter text_fields ps evs)) \<and>
    writes (parseMultipart md5 slugFilename mime_extension readFile formatName options_prefix formatter text_fields ps evs) ! i = WPending \<longrightarrow>
      deferred (parseMultipart md5 slugFilename mime_extension readFile formatName options_prefix formatter text_fields ps (evs @ [WriteSettled i (Some x)])) =
        Rejected (WriteError x)) \<and>
   (\<not> form_ended (parseMultipart md5 slugFilename mime_extension readFile formatName options_prefix formatter text_fields ps evs) \<and>
    first_failed (writes (parseMultipart md5 slugFilename mime_extension readFile formatName options_prefix formatter text_fields ps evs)) = Some x \<longrightarrow>
      deferred (parseMultipart md5 slugFilename mime_extension readFile formatName options_prefix formatter text_fields ps (evs @ [FormEnd None])) =
        Rejected (WriteError x))"
  (is "?A \<and> ?B \<and> ?C \<and> ?D \<and> ?E")
proof -
  let ?st = "parseMultipart md5 slugFilename mime_extension readFile formatName options_prefix formatter text_fields ps evs"
  let ?fmt = "format_result readFile formatName formatter (form_fields text_fields)
               (files (receive_all md5 slugFilename mime_extension options_prefix ps))"
  have inv: "upload_inv ?fmt (length (uploads (receive_all md5 slugFilename mime_extension options_prefix ps))) ?st"
    by (rule parseMultipart_inv)
  have A: ?A using inv unfolding upload_inv_def by blast
  have B: ?B using inv unfolding upload_inv_def by blast
  have C: ?C
  proof (intro allI impI)
    fix e assume "deferred ?st = Rejected e"
    then show "deferred (parseMultipart md5 slugFilename mime_extension readFile formatName options_prefix formatter text_fields ps (evs @ later)) = Rejected e"
      unfolding parseMultipart_append by (simp add: deferred_settled_foldl)
  qed
  have D: ?D
    unfolding parseMultipart_append
    by (auto simp: on_upload_event_def settle_simps Let_def)
  have E: ?E
  proof (intro impI)
    assume a: "\<not> form_ended ?st \<and> first_failed (writes ?st) = Some x"
    with inv have "deferred ?st = Pending" unfolding upload_inv_def by blast
    with a show "deferred (parseMultipart md5 slugFilename mime_extension readFile formatName options_prefix formatter text_fields ps (evs @ [FormEnd None])) =
        Rejected (WriteError x)"
      unfolding parseMultipart_append
      by (auto simp: on_upload_event_def settle_simps Let_def)
  qed
  from A B C D E show ?thesis by blast
qed

text \<open>
  Claim C3 as the specification states it fails: it says that the result is produced only
  after all writes have settled. When the first of three writes fails, the deferred is
  rejected while the two other writes are still pending.
\<close>

theorem upload_rejects_before_all_settled:
  "deferred (example_upload [FormEnd None, WriteSettled 0 (Some ''disk full'')]) = Rejected (WriteError ''disk full'') \<and>
   writes (example_upload [FormEnd None, WriteSettled 0 (Some ''disk full'')]) = [WFailed ''disk full'', WPending, WPending]"
  unfolding example_upload_run by code_simp

text \<open>
  The theorem at four runs of the example submission: every write succeeds; the second
  write fails and later events change nothing; a write fails while the deferred is pending;
  two writes fail before the form ends.
\<close>

theorem upload_all_or_nothing_witness:
  "deferred (example_upload [FormEnd None, WriteSettled 1 None, WriteSettled 0 None, WriteSettled 2 None]) = example_result \<and>
   joined (example_upload [FormEnd None, WriteSettled 1 None, WriteSettled 0 None, WriteSettled 2 None]) \<and>
   list_all (\<lambda>w. w = WDone)
     (writes (example_upload [FormEnd None, WriteSettled 1 None, WriteSettled 0 None, WriteSettled 2 None])) \<and>
   first_failed (writes (example_upload [FormEnd None, WriteSettled 1 (Some ''disk full'')])) = Some ''disk full'' \<and>
   deferred (example_upload ([FormEnd None, WriteSettled 1 (Some ''disk full'')] @
                             [WriteSettled 0 None, WriteSettled 2 (Some ''late'')])) =
     Rejected (WriteError ''disk full'') \<and>
   deferred (example_upload [FormEnd None, WriteSettled 0 None]) = Pending \<and>
   deferred (example_upload ([FormEnd None, WriteSettled 0 None] @ [WriteSettled 2 (Some ''quota'')])) =
     Rejected (WriteError ''quota'') \<and>
   first_failed (writes (example_upload [WriteSettled 2 (Some ''early''), WriteSettled 1 (Some ''first in the array'')])) =
     Some ''first in the array'' \<and>
   deferred (example_upload ([WriteSettled 2 (Some ''early''), WriteSettled 1 (Some ''first in the array'')] @
                             [FormEnd None])) =
     Rejected (WriteError ''first in the array'')"
proof -
  note T = upload_all_or_nothing
    [where ?md5.0 = example_md5 and slugFilename = example_slugFilename and mime_extension = example_mime_extension
       and readFile = example_readFile and formatName = example_formatName and options_prefix = "''tpl''"
       and formatter = "''groups''" and text_fields = "[]" and ps = example_parts,
     folded example_upload_def]
  note TA = T [THEN conjunct1, rule_format]
  note TB = T [THEN conjunct2, THEN conjunct1, rule_format]
  note TC = T [THEN conjunct2, THEN conjunct2, THEN conjunct1, rule_format]
  note TD = T [THEN conjunct2, THEN conjunct2, THEN conjunct2, THEN conjunct1, rule_format]
  note TE = T [THEN conjunct2, THEN conjunct2, THEN conjunct2, THEN conjunct2, rule_format]
  let ?ok = "[FormEnd None, WriteSettled 1 None, WriteSettled 0 None, WriteSettled 2 None]"
  have a1: "deferred (example_upload ?ok) = example_result"
    unfolding example_upload_run by code_simp
  have a2: "joined (example_upload ?ok) \<and> list_all (\<lambda>w. w = WDone) (writes (example_upload ?ok))"
    by (rule TA [OF a1 [unfolded example_result_def]])
  let ?bad = "[FormEnd None, WriteSettled 1 (Some ''disk full'')]"
  have b1: "joined (example_upload ?bad)"
    unfolding example_upload_run by code_simp
  have b2: "first_failed (writes (example_upload ?bad)) = Some ''disk full''"
    unfolding example_upload_run by code_simp
  have b3: "deferred (example_upload ?bad) = Rejected (WriteError ''disk full'')"
    unfolding example_upload_run by code_simp
  have "\<exists>e. deferred (example_upload ?bad) = Rejected (WriteError e) \<and> WFailed e \<in> set (writes (example_upload ?bad))"
    by (rule TB, rule conjI [OF b1], subst b2, rule option.distinct(2))
  have b5: "deferred (example_upload (?bad @ [WriteSettled 0 None, WriteSettled 2 (Some ''late'')])) =
              Rejected (WriteError ''disk full'')"
    by (rule TC [OF b3])
  let ?wait = "[FormEnd None, WriteSettled 0 None]"
  have c1: "joined (example_upload ?wait)"
    unfolding example_upload_run by code_simp
  have c2: "deferred (example_upload ?wait) = Pending"
    unfolding example_upload_run by code_simp
  have c3: "2 < length (writes (example_upload ?wait))"
    unfolding example_upload_run by code_simp
  have c3': "writes (example_upload ?wait) ! 2 = WPending"
    unfolding example_upload_run by code_simp
  have c4: "deferred (example_upload (?wait @ [WriteSettled 2 (Some ''quota'')])) = Rejected (WriteError ''quota'')"
    by (rule TD) (intro conjI c1 c2 c3 c3')
  let ?early = "[WriteSettled 2 (Some ''early''), WriteSettled 1 (Some ''first in the array'')]"
  have d1: "\<not> form_ended (example_upload ?early)"
    unfolding example_upload_run by code_simp
  have d2: "first_failed (writes (example_upload ?early)) = Some ''first in the array''"
    unfolding example_upload_run by code_simp
  have d3: "deferred (example_upload (?early @ [FormEnd None])) = Rejected (WriteError ''first in the array'')"
    by (rule TE) (intro conjI d1 d2)
  show ?thesis
    by (intro conjI a1 a2 [THEN conjunct1] a2 [THEN conjunct2] b2 b5 c2 c4 d2 d3)
qed

text \<open>
  Claim C9. Two uploaded parts with the same bytes and the same declared MIME type, handled
  under the same prefix: when both are stored, they are stored under the same name,
  whatever their file names and field names are. The name is made of the prefix, the digest
  of the bytes and the extension of the MIME type.
\<close>

theorem stored_name_deterministic:
  assumes "content p1 = content p2" and "content_type p1 = content_type p2"
    and "onFile slugFilename mime_extension options_prefix (field p1) (incoming md5 p1) = (f1, Some w1, x1)"
    and "onFile slugFilename mime_extension options_prefix (field p2) (incoming md5 p2) = (f2, Some w2, x2)"
  shows "name w1 = name w2 \<and>
         name w1 = options_prefix @ ''-'' @ md5 (content p1) @ ''.'' @ template_text (mime_extension (content_type p1))"
  using assms by (auto simp: onFile_def incoming_def Let_def split: if_splits)

text \<open>Two parts with the same bytes and different file names.\<close>

theorem stored_name_deterministic_witness:
  "content (example_part ''Logo.PNG'' ''image/png'' ''abc'') = content (example_part ''copy of logo.png'' ''image/png'' ''abc'') \<and>
   content_type (example_part ''Logo.PNG'' ''image/png'' ''abc'') = content_type (example_part ''copy of logo.png'' ''image/png'' ''abc'') \<and>
   fst (snd (onFile example_slugFilename example_mime_extension ''tpl'' ''images''
               (incoming example_md5 (example_part ''Logo.PNG'' ''image/png'' ''abc'')))) =
     Some \<lparr>file_size = 3, path = ''/tmp/upload'', name = ''tpl-md5ofabc.png'', type = ''image/png'',
           hash = ''md5ofabc'', originalName = Some ''logo.png''\<rparr> \<and>
   fst (snd (onFile example_slugFilename example_mime_extension ''tpl'' ''images''
               (incoming example_md5 (example_part ''copy of logo.png'' ''image/png'' ''abc'')))) =
     Some \<lparr>file_size = 3, path = ''/tmp/upload'', name = ''tpl-md5ofabc.png'', type = ''image/png'',
           hash = ''md5ofabc'', originalName = Some ''copyoflogo.png''\<rparr> \<and>
   name \<lparr>file_size = 3, path = ''/tmp/upload'', name = ''tpl-md5ofabc.png'', type = ''image/png'',
         hash = ''md5ofabc'', originalName = Some ''logo.png''\<rparr> =
   name \<lparr>file_size = 3, path = ''/tmp/upload'', name = ''tpl-md5ofabc.png'', type = ''image/png'',
         hash = ''md5ofabc'', originalName = Some ''copyoflogo.png''\<rparr>"
proof -
  let ?p1 = "example_part ''Logo.PNG'' ''image/png'' ''abc''"
  let ?p2 = "example_part ''copy of logo.png'' ''image/png'' ''abc''"
  let ?w1 = "\<lparr>file_size = 3, path = ''/tmp/upload'', name = ''tpl-md5ofabc.png'', type = ''image/png'',
               hash = ''md5ofabc'', originalName = Some ''logo.png''\<rparr>"
  let ?w2 = "\<lparr>file_size = 3, path = ''/tmp/upload'', name = ''tpl-md5ofabc.png'', type = ''image/png'',
               hash = ''md5ofabc'', originalName = Some ''copyoflogo.png''\<rparr>"
  have c: "content ?p1 = content ?p2" by (simp add: example_part_def)
  have t: "content_type ?p1 = content_type ?p2" by (simp add: example_part_def)
  have o1: "onFile example_slugFilename example_mime_extension ''tpl'' (field ?p1) (incoming example_md5 ?p1) = (?w1, Some ?w1, None)"
    by code_simp
  have o2: "onFile example_slugFilename example_mime_extension ''tpl'' (field ?p2) (incoming example_md5 ?p2) = (?w2, Some ?w2, None)"
    by code_simp
  have f: "field ?p1 = ''images''" "field ?p2 = ''images''" by (simp_all add: example_part_def)
  from stored_name_deterministic [OF c t o1 o2] have n: "name ?w1 = name ?w2" by (rule conjunct1)
  from o1 have s1: "fst (snd (onFile example_slugFilename example_mime_extension ''tpl'' ''images'' (incoming example_md5 ?p1))) = Some ?w1"
    unfolding f by simp
  from o2 have s2: "fst (snd (onFile example_slugFilename example_mime_extension ''tpl'' ''images'' (incoming example_md5 ?p2))) = Some ?w2"
    unfolding f by simp
  show ?thesis by (intro conjI c t s1 s2 n)
qed

text \<open>
  What \<^const>\<open>onFile\<close> does with a file that is not empty, not the markup and whose slugged
  name is not empty: it derives the name \<^verbatim>\<open><prefix>-<hash>.<ext>\<close> and hands the file to the
  store, where \<^verbatim>\<open><ext>\<close> is the extension of the MIME type, or the text \<^verbatim>\<open>false\<close> when
  the type has none. No MIME type makes it fail.
\<close>

lemma onFile_stored_name:
  assumes "file_size f \<noteq> 0" and "field_name \<noteq> ''markup''"
    and "remove_first (extname (slugFilename (name f))) (slugFilename (name f)) \<noteq> []"
  shows "\<exists>f'. onFile slugFilename mime_extension options_prefix field_name f = (f', Some f', None) \<and>
              name f' = options_prefix @ ''-'' @ hash f @ ''.'' @
                          (case mime_extension (type f) of None \<Rightarrow> ''false'' | Some ext \<Rightarrow> ext)"
  using assms by (simp add: onFile_def Let_def template_text_def)

text \<open>
  Claim C6 at a failing input. The claim wants the derivation of the stored name to fail
  when the MIME type has no extension, and the code means to give every file "the right
  extention". But \<^const>\<open>onFile\<close> does not look at what \<^verbatim>\<open>mime.extension\<close> returns: for a
  type without a mapping it returns false, and the template literal writes that out. A file
  of the unmapped type \<^verbatim>\<open>application/x-unknown\<close> is given the name
  \<^verbatim>\<open>tpl-md5ofabc.false\<close> and the original name \<^verbatim>\<open>data.false\<close>, and it is handed to the
  store; nothing fails.
\<close>

theorem unmapped_mime_type_stored_as_false:
  "example_mime_extension (type example_unknown_file) = None \<and>
   onFile example_slugFilename example_mime_extension ''tpl'' ''images'' example_unknown_file =
     (example_unknown_file\<lparr>name := ''tpl-md5ofabc.false'', originalName := Some ''data.false''\<rparr>,
      Some (example_unknown_file\<lparr>name := ''tpl-md5ofabc.false'', originalName := Some ''data.false''\<rparr>),
      None)"
  by code_simp

lemma receive_foldl:
  "foldl (receive md5 slugFilename mime_extension options_prefix) acc ps =
     \<lparr>files = files acc @
                map (\<lambda>p. (field p, fst (onFile slugFilename mime_extension options_prefix (field p) (incoming md5 p)))) ps,
      uploads = uploads acc @
                concat (map (\<lambda>p. case fst (snd (onFile slugFilename mime_extension options_prefix (field p) (incoming md5 p))) of
                                     None \<Rightarrow> [] | Some x \<Rightarrow> [x]) ps),
      warnings = warnings acc @
                concat (map (\<lambda>p. case snd (snd (onFile slugFilename mime_extension options_prefix (field p) (incoming md5 p))) of
                                     None \<Rightarrow> [] | Some x \<Rightarrow> [x]) ps)\<rparr>"
proof (induction ps arbitrary: acc)
  case Nil
  then show ?case by simp
next
  case (Cons p ps)
  show ?case
    unfolding foldl_Cons Cons.IH
    by (simp add: receive_def split: prod.splits)
qed

lemma receive_all_parts:
  "files (receive_all md5 slugFilename mime_extension options_prefix ps) =
     map (\<lambda>p. (field p, fst (onFile slugFilename mime_extension options_prefix (field p) (incoming md5 p)))) ps"
  "uploads (receive_all md5 slugFilename mime_extension options_prefix ps) =
     concat (map (\<lambda>p. case fst (snd (onFile slugFilename mime_extension options_prefix (field p) (incoming md5 p))) of
                          None \<Rightarrow> [] | Some x \<Rightarrow> [x]) ps)"
  "warnings (receive_all md5 slugFilename mime_extension options_prefix ps) =
     concat (map (\<lambda>p. case snd (snd (onFile slugFilename mime_extension options_prefix (field p) (incoming md5 p))) of
                          None \<Rightarrow> [] | Some x \<Rightarrow> [x]) ps)"
  unfolding receive_all_def receive_foldl by simp_all

lemma extname_Nil: "extname [] = []"
  by (simp add: extname_def)

lemma onFile_dropped:
  assumes "slugFilename [] = []" and "content p = [] \<or> filename p = []"
  shows "fst (onFile slugFilename mime_extension options_prefix (field p) (incoming md5 p)) = incoming md5 p"
    and "fst (snd (onFile slugFilename mime_extension options_prefix (field p) (incoming md5 p))) = None"
  using assms by (auto simp: onFile_def incoming_def Let_def extname_Nil)


lemma imageToFields_dropped:
  "content p = [] \<or> filename p = [] \<Longrightarrow> imageToFields fs (incoming md5 p) = Inr fs"
  by (auto simp: imageToFields_def incoming_def)

lemma imagesToFields_append:
  "imagesToFields fs (xs @ ys) =
     (case imagesToFields fs xs of Inl e \<Rightarrow> Inl e | Inr fs' \<Rightarrow> imagesToFields fs' ys)"
  by (induction xs arbitrary: fs) (auto split: sum.splits)

lemma imagesToFields_dropped:
  assumes "content p = [] \<or> filename p = []"
  shows "imagesToFields fs (files_of k (xs @ (field p, incoming md5 p) # ys)) =
         imagesToFields fs (files_of k (xs @ ys))"
proof (cases "field p = k")
  case True
  have "files_of k (xs @ (field p, incoming md5 p) # ys) = files_of k xs @ incoming md5 p # files_of k ys"
    using True by (simp add: files_of_def)
  moreover have "files_of k (xs @ ys) = files_of k xs @ files_of k ys"
    by (simp add: files_of_def)
  ultimately show ?thesis
    using imageToFields_dropped [OF assms]
    by (simp add: imagesToFields_append split: sum.splits)
next
  case False
  then show ?thesis by (simp add: files_of_def)
qed

lemma onFile_empty_slug:
  assumes "content p \<noteq> []" and "field p \<noteq> ''markup''"
    and "remove_first (extname (slugFilename (filename p))) (slugFilename (filename p)) = []"
  shows "onFile slugFilename mime_extension options_prefix (field p) (incoming md5 p) =
           (incoming md5 p, None, Some (filename p))"
  using assms by (simp add: onFile_def incoming_def Let_def)

text \<open>
  What holds of the parts that are dropped, provided the slug of the empty name is empty.
  A part with no bytes or with no file name starts no write, and the asset map is built as
  it is built without that part. A part with bytes, other than the markup, whose slugged
  name is empty starts no write either, and its name is in the warnings.
\<close>

lemma dropped_parts:
  assumes "slugFilename [] = []"
  shows
    "(content p = [] \<or> filename p = [] \<longrightarrow>
        uploads (receive_all md5 slugFilename mime_extension options_prefix (ps1 @ p # ps2)) =
          uploads (receive_all md5 slugFilename mime_extension options_prefix (ps1 @ ps2)) \<and>
        imagesToFields fs (files_of ''images''
          (files (receive_all md5 slugFilename mime_extension options_prefix (ps1 @ p # ps2)))) =
        imagesToFields fs (files_of ''images''
          (files (receive_all md5 slugFilename mime_extension options_prefix (ps1 @ ps2))))) \<and>
     (content p \<noteq> [] \<and> field p \<noteq> ''markup'' \<and>
      remove_first (extname (slugFilename (filename p))) (slugFilename (filename p)) = [] \<longrightarrow>
        uploads (receive_all md5 slugFilename mime_extension options_prefix (ps1 @ p # ps2)) =
          uploads (receive_all md5 slugFilename mime_extension options_prefix (ps1 @ ps2)) \<and>
        filename p \<in> set (warnings (receive_all md5 slugFilename mime_extension options_prefix (ps1 @ p # ps2))))"
  (is "(?drop \<longrightarrow> ?A1 \<and> ?A2) \<and> (?skip \<longrightarrow> ?B1 \<and> ?B2)")
proof (intro conjI impI)
  assume d: ?drop
  show ?A1
    using onFile_dropped(2) [where slugFilename = slugFilename, OF assms d] by (simp add: receive_all_parts)
  show ?A2
    using onFile_dropped(1) [where slugFilename = slugFilename, OF assms d] imagesToFields_dropped [OF d]
    by (simp add: receive_all_parts)
next
  assume s: ?skip
  then have o: "onFile slugFilename mime_extension options_prefix (field p) (incoming md5 p) =
                  (incoming md5 p, None, Some (filename p))"
    by (intro onFile_empty_slug) simp_all
  show ?B1 using o by (simp add: receive_all_parts)
  show ?B2 using o by (simp add: receive_all_parts)
qed

text \<open>
  Claim C7 at a failing input. The claim has a part whose file name slugs to the empty
  string skipped, without failing the submission. \<^const>\<open>onFile\<close> does warn and starts no
  write, but it leaves the file object among the files of the form, with the name the
  client gave and no original name. \<^const>\<open>imageToFields\<close> tests only the size and the
  name, so for a part \<^verbatim>\<open>???\<close> of the field \<^verbatim>\<open>images\<close> the \<^verbatim>\<open>groups\<close> formatter puts
  the entry \<^verbatim>\<open>undefined\<close> \<open>\<mapsto>\<close> \<^verbatim>\<open>???\<close> into the asset map: the result names a file that
  was never stored. And when the form has a text field \<^verbatim>\<open>assets\<close>, the same part makes
  the submission fail with a TypeError, where the form without the part is resolved.
\<close>

theorem empty_slug_part_in_asset_map:
  "remove_first (extname (example_slugFilename (filename example_unsluggable)))
     (example_slugFilename (filename example_unsluggable)) = [] \<and>
   receive_all example_md5 example_slugFilename example_mime_extension ''tpl'' [example_unsluggable] =
     \<lparr>files = [(''images'', \<lparr>file_size = 3, path = ''/tmp/upload'', name = ''???'', type = ''image/png'',
                              hash = ''md5ofxyz'', originalName = None\<rparr>)],
      uploads = [], warnings = [''???'']\<rparr> \<and>
   deferred (parseMultipart example_md5 example_slugFilename example_mime_extension example_readFile
               example_formatName ''tpl'' ''groups'' [] [example_unsluggable] [FormEnd None]) =
     Resolved (Fields [(''assets'', Object [(''undefined'', ''???'')])]) \<and>
   deferred (parseMultipart example_md5 example_slugFilename example_mime_extension example_readFile
               example_formatName ''tpl'' ''groups'' [] [] [FormEnd None]) =
     Resolved (Fields []) \<and>
   deferred (parseMultipart example_md5 example_slugFilename example_mime_extension example_readFile
               example_formatName ''tpl'' ''groups'' [(''assets'', ''logos'')] [example_unsluggable] [FormEnd None]) =
     Rejected TypeError \<and>
   deferred (parseMultipart example_md5 example_slugFilename example_mime_extension example_readFile
               example_formatName ''tpl'' ''groups'' [(''assets'', ''logos'')] [] [FormEnd None]) =
     Resolved (Fields [(''assets'', Text ''logos'')])"
proof -
  have s: "remove_first (extname (example_slugFilename (filename example_unsluggable)))
             (example_slugFilename (filename example_unsluggable)) = []"
    by code_simp
  have r: "receive_all example_md5 example_slugFilename example_mime_extension ''tpl'' [example_unsluggable] =
     \<lparr>files = [(''images'', \<lparr>file_size = 3, path = ''/tmp/upload'', name = ''???'', type = ''image/png'',
                              hash = ''md5ofxyz'', originalName = None\<rparr>)],
      uploads = [], warnings = [''???'']\<rparr>"
    by code_simp
  have r0: "receive_all example_md5 example_slugFilename example_mime_extension ''tpl'' [] =
     \<lparr>files = [], uploads = [], warnings = []\<rparr>"
    by (simp add: receive_all_def)
  have f1: "format_result example_readFile example_formatName ''groups'' (form_fields [])
              [(''images'', \<lparr>file_size = 3, path = ''/tmp/upload'', name = ''???'', type = ''image/png'',
                              hash = ''md5ofxyz'', originalName = None\<rparr>)] =
            Resolved (Fields [(''assets'', Object [(''undefined'', ''???'')])])"
    by code_simp
  have f2: "format_result example_readFile example_formatName ''groups'' (form_fields []) [] =
            Resolved (Fields [])"
    by code_simp
  have f3: "format_result example_readFile example_formatName ''groups'' (form_fields [(''assets'', ''logos'')])
              [(''images'', \<lparr>file_size = 3, path = ''/tmp/upload'', name = ''???'', type = ''image/png'',
                              hash = ''md5ofxyz'', originalName = None\<rparr>)] =
            Rejected TypeError"
    by code_simp
  have f4: "format_result example_readFile example_formatName ''groups'' (form_fields [(''assets'', ''logos'')]) [] =
            Resolved (Fields [(''assets'', Text ''logos'')])"
    by code_simp
  have run: "deferred (upload_run fmt 0 [FormEnd None]) = fmt" for fmt
    by (simp add: upload_run_def upload_start_def on_upload_event_def settle_def Let_def)
  have d1: "deferred (parseMultipart example_md5 example_slugFilename example_mime_extension example_readFile
               example_formatName ''tpl'' ''groups'' [] [example_unsluggable] [FormEnd None]) =
     Resolved (Fields [(''assets'', Object [(''undefined'', ''???'')])])"
    by (simp add: parseMultipart_def Let_def r f1 run)
  have d2: "deferred (parseMultipart example_md5 example_slugFilename example_mime_extension example_readFile
               example_formatName ''tpl'' ''groups'' [] [] [FormEnd None]) =
     Resolved (Fields [])"
    by (simp add: parseMultipart_def Let_def r0 f2 run)
  have d3: "deferred (parseMultipart example_md5 example_slugFilename example_mime_extension example_readFile
               example_formatName ''tpl'' ''groups'' [(''assets'', ''logos'')] [example_unsluggable] [FormEnd None]) =
     Rejected TypeError"
    by (simp add: parseMultipart_def Let_def r f3 run)
  have d4: "deferred (parseMultipart example_md5 example_slugFilename example_mime_extension example_readFile
               example_formatName ''tpl'' ''groups'' [(''assets'', ''logos'')] [] [FormEnd None]) =
     Resolved (Fields [(''assets'', Text ''logos'')])"
    by (simp add: parseMultipart_def Let_def r0 f4 run)
  show ?thesis by (intro conjI s r d1 d2 d3 d4)
qed
end
